theory Spec2Isabelle
  imports Main
begin

section \<open>The KFP command line: sdk/python/kfp/cli/compile.py and cli.py\<close>

text \<open>
  A shallow embedding of the two command-line modules. Everything the Python code does
  to process-global state (\<open>sys.path\<close>, the pipeline decorator hook, the calls made to
  the external compiler, the log and standard error) is a field of the record \<open>world\<close>,
  passed in and returned. A raised exception is the left summand of the result.
  Library functions and the behaviour of the imported user module are parameters,
  collected in the record \<open>env\<close>.
\<close>

subsection \<open>Exceptions\<close>

text \<open>
  The classes of exception that the code raises or tells apart. \<open>JSONDecodeError\<close> is a
  subclass of \<open>ValueError\<close>; \<open>SystemExit\<close> (with its exit status) and the classes under
  \<open>OtherBaseException\<close> (\<open>KeyboardInterrupt\<close>, \<open>GeneratorExit\<close>, ...) derive from
  \<open>BaseException\<close> only; every other class derives from \<open>Exception\<close>.
  An exception value carries its class and \<open>str(e)\<close>.
\<close>

datatype exn_class =
    ValueError
  | JSONDecodeError
  | IndexError
  | TypeError
  | KeyError
  | OtherException string
  | SystemExit int
  | OtherBaseException string

datatype exn = Exn (class_of: exn_class) (str_of: string)

text \<open>\<open>isinstance(e, Exception)\<close>, the test of an \<open>except Exception\<close> clause.\<close>

fun is_Exception :: "exn_class \<Rightarrow> bool" where
  "is_Exception (SystemExit code) = False"
| "is_Exception (OtherBaseException cls) = False"
| "is_Exception ValueError = True"
| "is_Exception JSONDecodeError = True"
| "is_Exception IndexError = True"
| "is_Exception TypeError = True"
| "is_Exception KeyError = True"
| "is_Exception (OtherException cls) = True"

subsection \<open>Values\<close>

text \<open>
  A pipeline function is a Python function object: its \<open>__name__\<close> and its identity
  (two distinct functions may share a name). Function objects are always truthy.
\<close>

datatype func = Func (func_name: string) (func_id: nat)

text \<open>What \<open>json.loads\<close> returns. The empty dictionary \<open>{}\<close> is \<open>JObject []\<close>.\<close>

datatype json =
    JNull
  | JBool bool
  | JInt int
  | JFloat string
  | JString string
  | JArray "json list"
  | JObject "(string \<times> json) list"

text \<open>The keyword arguments of one call of \<open>compiler.Compiler().compile\<close>.\<close>

record compile_call =
  pipeline_func :: func
  pipeline_parameters :: "json option"
  package_path :: string
  type_check :: bool

text \<open>
  The value of \<open>pipeline_context.pipeline_decorator_handler\<close>, when it is not \<open>None\<close>:
  the closure \<open>add_pipeline\<close> of a \<open>PipelineCollectorContext\<close>, identified by the
  address of the list \<open>pipeline_funcs\<close> it has captured, or a callable installed by
  other code.
\<close>

datatype handler = AddPipeline nat | Foreign nat

subsection \<open>Process state\<close>

record world =
  sys_path :: "string list"
  pipeline_decorator_handler :: "handler option"
  heap :: "nat \<Rightarrow> func list"
  next_ref :: nat
  compile_calls :: "compile_call list"
  error_log :: "string list"
  stderr :: "string list"

text \<open>
  \<open>heap\<close> holds the list objects created by \<open>__enter__\<close>, by address; \<open>next_ref\<close> is
  the next unused address. \<open>compile_calls\<close> records the calls of \<open>Compiler.compile\<close> in
  order, \<open>error_log\<close> the messages given to \<open>logging.error\<close>, \<open>stderr\<close> the lines
  written by \<open>click.echo(..., err=True)\<close>.
\<close>

subsection \<open>The imported module and the library\<close>

text \<open>
  What a user module does while it is imported, as far as this program can observe it:
  it applies the \<open>@dsl.pipeline\<close> decorator to a function, it assigns \<open>sys.path\<close>, it
  assigns the decorator hook, or it raises (which ends the import).
\<close>

datatype event =
    Decorate func
  | SetSysPath "string list"
  | SetHandler "handler option"
  | Raise exn

record env =
  dirname :: "string \<Rightarrow> string"
  basename :: "string \<Rightarrow> string"
  splitext :: "string \<Rightarrow> string \<times> string"
  module_events :: "string list \<Rightarrow> string \<Rightarrow> event list"
  json_loads :: "string \<Rightarrow> exn + json"
  compile_raises :: "compile_call \<Rightarrow> exn option"
  repr_str :: "string \<Rightarrow> string"

text \<open>
  \<open>dirname\<close>, \<open>basename\<close> and \<open>splitext\<close> are those of \<open>os.path\<close>; \<open>module_events\<close>
  gives, for the current \<open>sys.path\<close> and a module name, what \<open>__import__\<close> of that name
  executes; \<open>json_loads\<close> is \<open>json.loads\<close> on a string; \<open>compile_raises\<close> tells whether
  \<open>Compiler.compile\<close> raises on the given arguments; \<open>repr_str\<close> is \<open>repr\<close> on a string.
\<close>

subsection \<open>PipelineCollectorContext\<close>

text \<open>The instance attributes of a \<open>PipelineCollectorContext\<close>.\<close>

record pipeline_collector_context =
  old_handler :: "handler option"

text \<open>
  The closure \<open>add_pipeline\<close> over the list at address \<open>r\<close>:
  \<open>pipeline_funcs.append(func); return func\<close>.
\<close>

definition add_pipeline :: "nat \<Rightarrow> func \<Rightarrow> world \<Rightarrow> func \<times> world" where
  "add_pipeline r func w = (func, w\<lparr>heap := (heap w)(r := heap w r @ [func])\<rparr>)"

text \<open>
  \<open>__enter__\<close>: a new empty list, the old hook saved on the instance, the hook set to the
  closure; the list is returned. The result is the instance, the address of the list
  and the new state.
\<close>

definition PipelineCollectorContext_enter ::
  "world \<Rightarrow> pipeline_collector_context \<times> nat \<times> world" where
  "PipelineCollectorContext_enter w =
     (let r = next_ref w in
      (\<lparr>old_handler = pipeline_decorator_handler w\<rparr>,
       r,
       w\<lparr>heap := (heap w)(r := []),
         next_ref := Suc r,
         pipeline_decorator_handler := Some (AddPipeline r)\<rparr>))"

text \<open>\<open>__exit__\<close>: the hook is set back to the saved value; the result is \<open>None\<close>.\<close>

definition PipelineCollectorContext_exit ::
  "pipeline_collector_context \<Rightarrow> world \<Rightarrow> world" where
  "PipelineCollectorContext_exit self w =
     w\<lparr>pipeline_decorator_handler := old_handler self\<rparr>"

subsection \<open>Importing the user module\<close>

text \<open>
  Modelled from the spec: \<open>kfp.components.pipeline_context\<close> is not among the sources;
  the spec describes a module-level callback that collects decorated functions during
  import. The decorator passes the function to the hook when one is set and keeps the
  function when the hook returns nothing. A hook installed by other code has no effect
  on the state recorded here.
\<close>

definition decorate :: "func \<Rightarrow> world \<Rightarrow> func \<times> world" where
  "decorate func w =
     (case pipeline_decorator_handler w of
        None \<Rightarrow> (func, w)
      | Some (AddPipeline r) \<Rightarrow> add_pipeline r func w
      | Some (Foreign h) \<Rightarrow> (func, w))"

fun run_events :: "event list \<Rightarrow> world \<Rightarrow> (exn + unit) \<times> world" where
  "run_events [] w = (Inr (), w)"
| "run_events (Decorate f # es) w = run_events es (snd (decorate f w))"
| "run_events (SetSysPath p # es) w = run_events es (w\<lparr>sys_path := p\<rparr>)"
| "run_events (SetHandler h # es) w = run_events es (w\<lparr>pipeline_decorator_handler := h\<rparr>)"
| "run_events (Raise e # es) w = (Inl e, w)"

text \<open>\<open>__import__(name)\<close>.\<close>

definition import_module :: "env \<Rightarrow> string \<Rightarrow> world \<Rightarrow> (exn + unit) \<times> world" where
  "import_module env name w = run_events (module_events env (sys_path w) name) w"

subsection \<open>\_compile\_pipeline\_function\<close>

text \<open>Truth value of an \<open>Optional[str]\<close>: \<open>None\<close> and the empty string are false.\<close>

fun truthy :: "string option \<Rightarrow> bool" where
  "truthy None = False"
| "truthy (Some s) = (s \<noteq> [])"

text \<open>\<open>'%s' % names\<close> for a list of strings: the \<open>repr\<close> of the list.\<close>

fun join_comma :: "string list \<Rightarrow> string" where
  "join_comma [] = []"
| "join_comma [s] = s"
| "join_comma (s # t # ss) = s @ '', '' @ join_comma (t # ss)"

definition repr_list :: "env \<Rightarrow> string list \<Rightarrow> string" where
  "repr_list env names = ''['' @ join_comma (map (repr_str env) names) @ '']''"

definition required_message :: string where
  "required_message = ''A function with @dsl.pipeline decorator is required in the py file.''"

definition multiple_message :: "env \<Rightarrow> func list \<Rightarrow> string" where
  "multiple_message env pipeline_funcs =
     ''There are multiple pipelines: '' @ repr_list env (map func_name pipeline_funcs)
       @ ''. Please specify --function.''"

definition not_exist_message :: "string \<Rightarrow> string" where
  \<open>not_exist_message function_name =
     ''The function "'' @ function_name @ ''" does not exist. ''
       @ ''Did you forget @dsl.pipeline decoration?''\<close>

text \<open>\<open>Compiler().compile(...)\<close>: the call is recorded, then it returns or raises.\<close>

definition Compiler_compile :: "env \<Rightarrow> compile_call \<Rightarrow> world \<Rightarrow> (exn + unit) \<times> world" where
  "Compiler_compile env call w =
     (case compile_raises env call of
        None \<Rightarrow> (Inr (), w\<lparr>compile_calls := compile_calls w @ [call]\<rparr>)
      | Some e \<Rightarrow> (Inl e, w\<lparr>compile_calls := compile_calls w @ [call]\<rparr>))"

text \<open>
  The choice of \<open>pipeline_func\<close> (the \<open>if function_name: ... else: ...\<close> statement):
  \<open>next(...)\<close> gives the first function of that name or \<open>None\<close>; \<open>pipeline_funcs[0]\<close>
  raises \<open>IndexError\<close> on an empty list.
\<close>

definition index0 :: "func list \<Rightarrow> exn + func" where
  "index0 pipeline_funcs =
     (case pipeline_funcs of
        [] \<Rightarrow> Inl (Exn IndexError ''list index out of range'')
      | f # rest \<Rightarrow> Inr f)"

definition select_pipeline_func :: "func list \<Rightarrow> string option \<Rightarrow> exn + func" where
  "select_pipeline_func pipeline_funcs function_name =
     (if truthy function_name then
        (case function_name of
           Some n \<Rightarrow>
             (case find (\<lambda>x. func_name x = n) pipeline_funcs of
                None \<Rightarrow> Inl (Exn ValueError (not_exist_message n))
              | Some f \<Rightarrow> Inr f)
         | None \<Rightarrow> index0 pipeline_funcs)
      else index0 pipeline_funcs)"

definition compile_pipeline_function ::
  "env \<Rightarrow> func list \<Rightarrow> string option \<Rightarrow> json option \<Rightarrow> string \<Rightarrow> bool \<Rightarrow> world
     \<Rightarrow> (exn + unit) \<times> world" where
  "compile_pipeline_function env pipeline_funcs function_name pipeline_params package type_chk w =
     (if length pipeline_funcs = 0 then
        (Inl (Exn ValueError required_message), w)
      else if length pipeline_funcs > 1 \<and> \<not> truthy function_name then
        (Inl (Exn ValueError (multiple_message env pipeline_funcs)), w)
      else
        (case select_pipeline_func pipeline_funcs function_name of
           Inl e \<Rightarrow> (Inl e, w)
         | Inr f \<Rightarrow>
             Compiler_compile env
               \<lparr>pipeline_func = f,
                pipeline_parameters = pipeline_params,
                package_path = package,
                type_check = type_chk\<rparr> w))"

subsection \<open>dsl\_compile\<close>

text \<open>The parameters of the command's callback, as click passes them.\<close>

record dsl_compile_args =
  arg_py :: string
  arg_output :: string
  arg_function_name :: "string option"
  arg_pipeline_parameters :: "string option"
  arg_disable_type_check :: bool

text \<open>
  The options as declared: \<open>--py\<close> and \<open>--output\<close> are required, \<open>--function\<close> and
  \<open>--pipeline-parameters\<close> default to \<open>None\<close>, \<open>--disable-type-check\<close> is a flag
  (\<open>is_flag=True, default=False\<close>), true when it is on the command line.
\<close>

definition default_function_name :: "string option" where
  "default_function_name = None"

definition default_pipeline_parameters :: "string option" where
  "default_pipeline_parameters = None"

definition default_disable_type_check :: bool where
  "default_disable_type_check = False"

definition dsl_compile_options ::
  "string \<Rightarrow> string \<Rightarrow> string option \<Rightarrow> string option \<Rightarrow> bool \<Rightarrow> dsl_compile_args" where
  "dsl_compile_options py_opt output_opt function_opt parameters_opt flag_given =
     \<lparr>arg_py = py_opt,
      arg_output = output_opt,
      arg_function_name =
        (case function_opt of None \<Rightarrow> default_function_name | Some s \<Rightarrow> Some s),
      arg_pipeline_parameters =
        (case parameters_opt of None \<Rightarrow> default_pipeline_parameters | Some s \<Rightarrow> Some s),
      arg_disable_type_check =
        (if flag_given then True else default_disable_type_check)\<rparr>"

text \<open>The name given to \<open>__import__\<close>: \<open>os.path.splitext(os.path.basename(py))[0]\<close>.\<close>

definition import_name :: "env \<Rightarrow> dsl_compile_args \<Rightarrow> string" where
  "import_name env a = fst (splitext env (basename env (arg_py a)))"

text \<open>
  The \<open>with PipelineCollectorContext() as pipeline_funcs: __import__(...)\<close> statement.
  \<open>__exit__\<close> runs whether the import returns or raises, and returns \<open>None\<close>, so an
  exception of the import goes on. On success the result is the address of
  \<open>pipeline_funcs\<close>.
\<close>

definition collect_pipeline_funcs :: "env \<Rightarrow> string \<Rightarrow> world \<Rightarrow> (exn + nat) \<times> world" where
  "collect_pipeline_funcs env name w =
     (case PipelineCollectorContext_enter w of
        (self, r, w1) \<Rightarrow>
          (case import_module env name w1 of
             (Inl e, w2) \<Rightarrow> (Inl e, PipelineCollectorContext_exit self w2)
           | (Inr u, w2) \<Rightarrow> (Inr r, PipelineCollectorContext_exit self w2)))"

definition parse_error_message :: "string \<Rightarrow> string" where
  "parse_error_message s = ''Failed to parse --pipeline-parameters argument: '' @ s"

text \<open>
  The inner \<open>try\<close>: \<open>json.loads\<close> when the option is given, \<open>{}\<close> otherwise; a
  \<open>JSONDecodeError\<close> is logged and raised again, any other exception goes on as it is.
\<close>

definition parse_parameters :: "env \<Rightarrow> string option \<Rightarrow> world \<Rightarrow> (exn + json) \<times> world" where
  "parse_parameters env parameters w =
     (case parameters of
        None \<Rightarrow> (Inr (JObject []), w)
      | Some s \<Rightarrow>
          (case json_loads env s of
             Inr v \<Rightarrow> (Inr v, w)
           | Inl e \<Rightarrow>
               if class_of e = JSONDecodeError
               then (Inl e, w\<lparr>error_log := error_log w @ [parse_error_message s]\<rparr>)
               else (Inl e, w)))"

text \<open>The body of the outer \<open>try\<close>.\<close>

definition dsl_compile_try :: "env \<Rightarrow> dsl_compile_args \<Rightarrow> world \<Rightarrow> (exn + unit) \<times> world" where
  "dsl_compile_try env a w =
     (case collect_pipeline_funcs env (import_name env a) w of
        (Inl e, w1) \<Rightarrow> (Inl e, w1)
      | (Inr r, w1) \<Rightarrow>
          (case parse_parameters env (arg_pipeline_parameters a) w1 of
             (Inl e, w2) \<Rightarrow> (Inl e, w2)
           | (Inr parsed_parameters, w2) \<Rightarrow>
               compile_pipeline_function env (heap w2 r) (arg_function_name a)
                 (Some parsed_parameters) (arg_output a) (\<not> arg_disable_type_check a) w2))"

text \<open>
  The \<open>finally\<close> clause, \<open>del sys.path[0]\<close>, after the body has ended with \<open>res\<close>: on
  an empty list the statement raises \<open>IndexError\<close>, which replaces the outcome of the
  body.
\<close>

definition dsl_compile_finally :: "(exn + unit) \<times> world \<Rightarrow> (exn + unit) \<times> world" where
  "dsl_compile_finally rw =
     (case rw of
        (res, w) \<Rightarrow>
          (case sys_path w of
             [] \<Rightarrow> (Inl (Exn IndexError ''list assignment index out of range''), w)
           | p # ps \<Rightarrow> (res, w\<lparr>sys_path := ps\<rparr>)))"

text \<open>\<open>sys.path.insert(0, os.path.dirname(py))\<close>.\<close>

definition sys_path_insert0 :: "env \<Rightarrow> dsl_compile_args \<Rightarrow> world \<Rightarrow> world" where
  "sys_path_insert0 env a w = w\<lparr>sys_path := dirname env (arg_py a) # sys_path w\<rparr>"

definition dsl_compile :: "env \<Rightarrow> dsl_compile_args \<Rightarrow> world \<Rightarrow> (exn + unit) \<times> world" where
  "dsl_compile env a w = dsl_compile_finally (dsl_compile_try env a (sys_path_insert0 env a w))"

subsection \<open>main\<close>

text \<open>
  \<open>main\<close> calls the click command object \<open>dsl_compile\<close>; \<open>command\<close> is that call, a
  state transformer that returns or raises. An instance of \<open>Exception\<close> is caught, its
  \<open>str\<close> written to standard error, and \<open>sys.exit(1)\<close> raises \<open>SystemExit(1)\<close>; any
  other exception leaves \<open>main\<close> as it is. The logging configuration only sets the
  format and level of log lines and is left out.
\<close>

definition main :: "(world \<Rightarrow> (exn + unit) \<times> world) \<Rightarrow> world \<Rightarrow> (exn + unit) \<times> world" where
  "main command w =
     (case command w of
        (Inr u, w1) \<Rightarrow> (Inr u, w1)
      | (Inl e, w1) \<Rightarrow>
          if is_Exception (class_of e)
          then (Inl (Exn (SystemExit 1) ''1''), w1\<lparr>stderr := stderr w1 @ [str_of e]\<rparr>)
          else (Inl e, w1))"

subsection \<open>The specification's view of an import\<close>

text \<open>
  The functions that the module passes to the decorator before it raises, in order;
  whether the part that runs assigns the hook; whether it assigns \<open>sys.path\<close>.
\<close>

fun registrations :: "event list \<Rightarrow> func list" where
  "registrations [] = []"
| "registrations (Decorate f # es) = f # registrations es"
| "registrations (SetSysPath p # es) = registrations es"
| "registrations (SetHandler h # es) = registrations es"
| "registrations (Raise e # es) = []"

fun assigns_handler :: "event list \<Rightarrow> bool" where
  "assigns_handler [] = False"
| "assigns_handler (Decorate f # es) = assigns_handler es"
| "assigns_handler (SetSysPath p # es) = assigns_handler es"
| "assigns_handler (SetHandler h # es) = True"
| "assigns_handler (Raise e # es) = False"

fun assigns_sys_path :: "event list \<Rightarrow> bool" where
  "assigns_sys_path [] = False"
| "assigns_sys_path (Decorate f # es) = assigns_sys_path es"
| "assigns_sys_path (SetSysPath p # es) = True"
| "assigns_sys_path (SetHandler h # es) = assigns_sys_path es"
| "assigns_sys_path (Raise e # es) = False"

text \<open>
  The functions appended to the list at address \<open>r\<close> by the events that run, when the
  import starts with the hook \<open>h\<close>: those decorated while the hook is the closure over
  that list.
\<close>

fun collected :: "nat \<Rightarrow> handler option \<Rightarrow> event list \<Rightarrow> func list" where
  "collected r h [] = []"
| "collected r h (Decorate f # es) =
     (if h = Some (AddPipeline r) then f # collected r h es else collected r h es)"
| "collected r h (SetSysPath p # es) = collected r h es"
| "collected r h (SetHandler h' # es) = collected r h' es"
| "collected r h (Raise e # es) = []"

text \<open>
  The value of \<open>sys.path\<close> when the import ends, from its value \<open>p\<close> when the import
  starts: the last assignment among the events that run.
\<close>

fun sys_path_after :: "event list \<Rightarrow> string list \<Rightarrow> string list" where
  "sys_path_after [] p = p"
| "sys_path_after (Decorate f # es) p = sys_path_after es p"
| "sys_path_after (SetSysPath q # es) p = sys_path_after es q"
| "sys_path_after (SetHandler h # es) p = sys_path_after es p"
| "sys_path_after (Raise e # es) p = p"

text \<open>The calls of \<open>Compiler.compile\<close> made between the state \<open>w\<close> and the later state \<open>w'\<close>.\<close>

definition new_compile_calls :: "world \<Rightarrow> world \<Rightarrow> compile_call list" where
  "new_compile_calls w w' = drop (length (compile_calls w)) (compile_calls w')"

section \<open>cli.py\<close>

text \<open>A string between two single quotes.\<close>

definition single_quoted :: "string \<Rightarrow> string" where
  "single_quoted s = CHR 0x27 # s @ [CHR 0x27]"

definition PROGRAM_NAME :: string where
  "PROGRAM_NAME = ''kfp''"

definition SHELL_FILES :: "(string \<times> string list) list" where
  "SHELL_FILES =
     [(''bash'', [''.bashrc'']),
      (''zsh'', [''.zshrc'']),
      (''fish'', [''.config'', ''fish'', ''completions'', PROGRAM_NAME @ ''.fish''])]"

text \<open>\<open>str.upper\<close> on ASCII letters, which is all that \<open>PROGRAM_NAME\<close> has.\<close>

definition upper_char :: "char \<Rightarrow> char" where
  "upper_char c =
     (let n = (of_char c :: nat) in if 97 \<le> n \<and> n \<le> 122 then char_of (n - 32) else c)"

definition upper :: "string \<Rightarrow> string" where
  "upper s = map upper_char s"

definition create_completion :: "string \<Rightarrow> string" where
  \<open>create_completion shell =
     ''eval "$(_'' @ upper PROGRAM_NAME @ ''_COMPLETE='' @ shell @ ''_source ''
       @ PROGRAM_NAME @ '')"''\<close>

text \<open>
  The arguments of \<open>Client(...)\<close>, in the order the call passes them: endpoint,
  iap\_client\_id, namespace, other\_client\_id, other\_client\_secret. An option that is
  not given is \<open>None\<close>; \<open>--namespace\<close> has a default.
\<close>

datatype client =
  Client "string option" "string option" string "string option" "string option"

datatype ctx_value = ClientObj client | StrObj string

text \<open>
  The part of the click context that the callback uses: \<open>ctx.invoked_subcommand\<close> and
  \<open>ctx.obj\<close>, which is \<open>None\<close> or a dictionary.
\<close>

record click_context =
  invoked_subcommand :: "string option"
  obj :: "(string \<rightharpoonup> ctx_value) option"

record cli_world =
  stdout :: "string list"
  files :: "string \<Rightarrow> string"
  client_calls :: "client list"

text \<open>
  \<open>home\<close> is \<open>os.path.expanduser('~')\<close>, \<open>path_join\<close> is \<open>os.path.join\<close> of a first
  component and the rest, \<open>open_raises\<close> tells whether opening the file for appending
  raises, \<open>client_command_names\<close> are the names of the commands in
  \<open>COMMANDS['client']\<close> (defined in modules that are not among the sources),
  \<open>Client_raises\<close> tells whether the constructor of \<open>Client\<close> raises, \<open>repr_key\<close> is
  \<open>repr\<close> on a string.
\<close>

record cli_env =
  home :: string
  path_join :: "string \<Rightarrow> string list \<Rightarrow> string"
  open_raises :: "string \<Rightarrow> exn option"
  client_command_names :: "string list"
  Client_raises :: "client \<Rightarrow> exn option"
  repr_key :: "string \<Rightarrow> string"

text \<open>
  \<open>_install_completion\<close>: the statement is appended, between two newlines, to the
  shell's start-up file under the home directory.
\<close>

definition install_completion_file :: "cli_env \<Rightarrow> string \<Rightarrow> cli_world \<Rightarrow> (exn + unit) \<times> cli_world" where
  "install_completion_file env shell w =
     (let completion_statement = create_completion shell in
      case map_of SHELL_FILES shell of
        None \<Rightarrow> (Inl (Exn KeyError (repr_key env shell)), w)
      | Some parts \<Rightarrow>
          (let source_file = path_join env (home env) parts in
           case open_raises env source_file of
             Some e \<Rightarrow> (Inl e, w)
           | None \<Rightarrow>
               (Inr (),
                w\<lparr>files := (files w)
                  (source_file :=
                     files w source_file @ [CHR 0x0A] @ completion_statement @ [CHR 0x0A])\<rparr>)))"

text \<open>The set \<open>client_commands\<close>: each client command's name and the name followed by s.\<close>

definition client_commands :: "cli_env \<Rightarrow> string list" where
  "client_commands env = concat (map (\<lambda>name. [name, name @ ''s'']) (client_command_names env))"

definition is_client_command :: "cli_env \<Rightarrow> string option \<Rightarrow> bool" where
  "is_client_command env subcommand =
     (case subcommand of
        None \<Rightarrow> False
      | Some name \<Rightarrow> name \<in> set (client_commands env))"

text \<open>
  The last three statements of \<open>cli\<close>. The constructor is called first; then the
  item assignment raises \<open>TypeError\<close> when \<open>ctx.obj\<close> is \<open>None\<close>.
\<close>

definition create_client ::
  "cli_env \<Rightarrow> click_context \<Rightarrow> client \<Rightarrow> string \<Rightarrow> string \<Rightarrow> cli_world
     \<Rightarrow> (exn + unit) \<times> click_context \<times> cli_world" where
  "create_client env ctx c namespace output_format w =
     (let w1 = w\<lparr>client_calls := client_calls w @ [c]\<rparr> in
      case Client_raises env c of
        Some e \<Rightarrow> (Inl e, ctx, w1)
      | None \<Rightarrow>
          (case obj ctx of
             None \<Rightarrow>
               (Inl (Exn TypeError
                  (single_quoted ''NoneType'' @ '' object does not support item assignment'')),
                ctx, w1)
           | Some d \<Rightarrow>
               (Inr (),
                ctx\<lparr>obj := Some (d(''client'' \<mapsto> ClientObj c,
                                   ''namespace'' \<mapsto> StrObj namespace,
                                   ''output'' \<mapsto> StrObj output_format))\<rparr>,
                w1)))"

definition cli ::
  "cli_env \<Rightarrow> click_context \<Rightarrow> string option \<Rightarrow> string option \<Rightarrow> string \<Rightarrow> string option
     \<Rightarrow> string option \<Rightarrow> string \<Rightarrow> string option \<Rightarrow> string option \<Rightarrow> cli_world
     \<Rightarrow> (exn + unit) \<times> click_context \<times> cli_world" where
  "cli env ctx endpoint iap_client_id namespace other_client_id other_client_secret
       output_format show_completion install_completion w =
     (if truthy show_completion then
        (Inr (), ctx,
         w\<lparr>stdout := stdout w @ [create_completion (case show_completion of Some s \<Rightarrow> s | None \<Rightarrow> [])]\<rparr>)
      else if truthy install_completion then
        (case install_completion_file env (case install_completion of Some s \<Rightarrow> s | None \<Rightarrow> []) w of
           (res, w1) \<Rightarrow> (res, ctx, w1))
      else if \<not> is_client_command env (invoked_subcommand ctx) then
        (Inr (), ctx, w)
      else
        create_client env ctx
          (Client endpoint iap_client_id namespace other_client_id other_client_secret)
          namespace output_format w)"

section \<open>A small environment for evaluation\<close>

text \<open>
  Concrete values on which the definitions can be run: paths of the form
  \<open>directory/base.ext\<close>, one importable module \<open>pipe\<close> in \<open>/proj\<close> whose import-time
  behaviour is given, and a \<open>json.loads\<close> that knows two documents.
\<close>

definition demo_repr :: "string \<Rightarrow> string" where
  "demo_repr s = single_quoted s"

definition demo_dirname :: "string \<Rightarrow> string" where
  "demo_dirname p = rev (drop 1 (dropWhile (\<lambda>c. c \<noteq> CHR ''/'') (rev p)))"

definition demo_basename :: "string \<Rightarrow> string" where
  "demo_basename p = rev (takeWhile (\<lambda>c. c \<noteq> CHR ''/'') (rev p))"

definition demo_splitext :: "string \<Rightarrow> string \<times> string" where
  "demo_splitext p =
     (rev (drop 1 (dropWhile (\<lambda>c. c \<noteq> CHR ''.'') (rev p))),
      CHR ''.'' # rev (takeWhile (\<lambda>c. c \<noteq> CHR ''.'') (rev p)))"

definition demo_missing :: "event list" where
  "demo_missing = [Raise (Exn (OtherException ''ModuleNotFoundError'') ''No module named pipe'')]"

definition demo_module_events :: "event list \<Rightarrow> string list \<Rightarrow> string \<Rightarrow> event list" where
  "demo_module_events es path name =
     (case path of
        [] \<Rightarrow> demo_missing
      | d # ds \<Rightarrow> if d = ''/proj'' \<and> name = ''pipe'' then es else demo_missing)"

definition demo_json_loads :: "string \<Rightarrow> exn + json" where
  \<open>demo_json_loads s =
     (if s = ''{}'' then Inr (JObject [])
      else if s = ''{"a": 1}'' then Inr (JObject [(''a'', JInt 1)])
      else Inl (Exn JSONDecodeError ''Expecting value: line 1 column 1 (char 0)''))\<close>

definition demo_env :: "event list \<Rightarrow> env" where
  "demo_env es =
     \<lparr>dirname = demo_dirname,
      basename = demo_basename,
      splitext = demo_splitext,
      module_events = demo_module_events es,
      json_loads = demo_json_loads,
      compile_raises = (\<lambda>c. None),
      repr_str = demo_repr\<rparr>"

definition demo_world :: world where
  "demo_world =
     \<lparr>sys_path = [''/usr/lib/python3''],
      pipeline_decorator_handler = None,
      heap = (\<lambda>r. []),
      next_ref = 0,
      compile_calls = [],
      error_log = [],
      stderr = []\<rparr>"

text \<open>A state in which other code has already installed a hook.\<close>

definition demo_hooked_world :: world where
  "demo_hooked_world = demo_world\<lparr>pipeline_decorator_handler := Some (Foreign 3)\<rparr>"

definition demo_args :: "string option \<Rightarrow> string option \<Rightarrow> dsl_compile_args" where
  "demo_args function_opt parameters_opt =
     dsl_compile_options ''/proj/pipe.py'' ''out.json'' function_opt parameters_opt False"

definition demo_cli_env :: cli_env where
  "demo_cli_env =
     \<lparr>home = ''/home/user'',
      path_join = (\<lambda>first rest. foldl (\<lambda>acc part. acc @ ''/'' @ part) first rest),
      open_raises = (\<lambda>path. None),
      client_command_names = [''run'', ''recurring-run'', ''experiment'', ''pipeline''],
      Client_raises = (\<lambda>c. None),
      repr_key = demo_repr\<rparr>"

definition demo_cli_world :: cli_world where
  "demo_cli_world = \<lparr>stdout = [], files = (\<lambda>path. []), client_calls = []\<rparr>"

definition demo_context :: "string option \<Rightarrow> click_context" where
  "demo_context subcommand = \<lparr>invoked_subcommand = subcommand, obj = Some Map.empty\<rparr>"

section \<open>What each step leaves unchanged\<close>

lemma decorate_fst: "fst (decorate f w) = f"
  by (simp add: decorate_def add_pipeline_def split: option.splits handler.splits)

lemma decorate_frame:
  "sys_path (snd (decorate f w)) = sys_path w"
  "pipeline_decorator_handler (snd (decorate f w)) = pipeline_decorator_handler w"
  "compile_calls (snd (decorate f w)) = compile_calls w"
  "error_log (snd (decorate f w)) = error_log w"
  "stderr (snd (decorate f w)) = stderr w"
  "next_ref (snd (decorate f w)) = next_ref w"
  by (simp_all add: decorate_def add_pipeline_def split: option.splits handler.splits)

lemma decorate_heap:
  "pipeline_decorator_handler w = Some (AddPipeline r) \<Longrightarrow>
     heap (snd (decorate f w)) r = heap w r @ [f]"
  by (simp add: decorate_def add_pipeline_def)

lemma run_events_frame:
  "compile_calls (snd (run_events es w)) = compile_calls w \<and>
   error_log (snd (run_events es w)) = error_log w \<and>
   stderr (snd (run_events es w)) = stderr w \<and>
   next_ref (snd (run_events es w)) = next_ref w"
  by (induction es w rule: run_events.induct) (simp_all add: decorate_frame)

lemma run_events_sys_path:
  "\<not> assigns_sys_path es \<Longrightarrow> sys_path (snd (run_events es w)) = sys_path w"
  by (induction es w rule: run_events.induct) (simp_all add: decorate_frame)

lemma run_events_collects:
  "pipeline_decorator_handler w = Some (AddPipeline r) \<Longrightarrow> \<not> assigns_handler es \<Longrightarrow>
     heap (snd (run_events es w)) r = heap w r @ registrations es \<and>
     pipeline_decorator_handler (snd (run_events es w)) = Some (AddPipeline r)"
  by (induction es w rule: run_events.induct) (simp_all add: decorate_frame decorate_heap)

lemma collect_unfold:
  "collect_pipeline_funcs env name w =
     (let w1 = w\<lparr>heap := (heap w)(next_ref w := []), next_ref := Suc (next_ref w),
                 pipeline_decorator_handler := Some (AddPipeline (next_ref w))\<rparr>;
          rw = run_events (module_events env (sys_path w) name) w1
      in (case fst rw of Inl e \<Rightarrow> Inl e | Inr u \<Rightarrow> Inr (next_ref w),
          (snd rw)\<lparr>pipeline_decorator_handler := pipeline_decorator_handler w\<rparr>))"
  by (simp add: collect_pipeline_funcs_def PipelineCollectorContext_enter_def
      PipelineCollectorContext_exit_def import_module_def Let_def
      split: prod.splits sum.splits)

lemma collect_frame:
  "pipeline_decorator_handler (snd (collect_pipeline_funcs env name w)) = pipeline_decorator_handler w \<and>
   compile_calls (snd (collect_pipeline_funcs env name w)) = compile_calls w \<and>
   error_log (snd (collect_pipeline_funcs env name w)) = error_log w \<and>
   stderr (snd (collect_pipeline_funcs env name w)) = stderr w"
  by (simp add: collect_unfold Let_def run_events_frame)

lemma collect_sys_path:
  "\<not> assigns_sys_path (module_events env (sys_path w) name) \<Longrightarrow>
     sys_path (snd (collect_pipeline_funcs env name w)) = sys_path w"
  by (simp add: collect_unfold Let_def run_events_sys_path)

lemma parse_frame:
  "sys_path (snd (parse_parameters env p w)) = sys_path w \<and>
   pipeline_decorator_handler (snd (parse_parameters env p w)) = pipeline_decorator_handler w \<and>
   compile_calls (snd (parse_parameters env p w)) = compile_calls w \<and>
   heap (snd (parse_parameters env p w)) = heap w \<and>
   stderr (snd (parse_parameters env p w)) = stderr w"
  by (simp add: parse_parameters_def split: option.splits sum.splits)

lemma compile_frame:
  "sys_path (snd (compile_pipeline_function env fs fn pp out tc w)) = sys_path w \<and>
   pipeline_decorator_handler (snd (compile_pipeline_function env fs fn pp out tc w)) = pipeline_decorator_handler w \<and>
   heap (snd (compile_pipeline_function env fs fn pp out tc w)) = heap w \<and>
   error_log (snd (compile_pipeline_function env fs fn pp out tc w)) = error_log w \<and>
   stderr (snd (compile_pipeline_function env fs fn pp out tc w)) = stderr w"
  by (simp add: compile_pipeline_function_def Compiler_compile_def split: option.splits sum.splits)

lemma try_unfold:
  "dsl_compile_try env a w =
     (let cw = collect_pipeline_funcs env (import_name env a) w in
      case fst cw of
        Inl e \<Rightarrow> (Inl e, snd cw)
      | Inr r \<Rightarrow>
         (let pw = parse_parameters env (arg_pipeline_parameters a) (snd cw) in
          case fst pw of
            Inl e \<Rightarrow> (Inl e, snd pw)
          | Inr v \<Rightarrow> compile_pipeline_function env (heap (snd pw) r) (arg_function_name a)
                 (Some v) (arg_output a) (\<not> arg_disable_type_check a) (snd pw)))"
  by (simp add: dsl_compile_try_def Let_def split: prod.splits sum.splits)

lemma try_frame:
  "pipeline_decorator_handler (snd (dsl_compile_try env a w)) = pipeline_decorator_handler w \<and>
   stderr (snd (dsl_compile_try env a w)) = stderr w"
  by (simp add: try_unfold Let_def collect_frame parse_frame compile_frame split: sum.splits)

lemma try_sys_path:
  "\<not> assigns_sys_path (module_events env (sys_path w) (import_name env a)) \<Longrightarrow>
     sys_path (snd (dsl_compile_try env a w)) = sys_path w"
  by (simp add: try_unfold Let_def collect_sys_path parse_frame compile_frame split: sum.splits)

lemma finally_frame:
  "pipeline_decorator_handler (snd (dsl_compile_finally rw)) = pipeline_decorator_handler (snd rw) \<and>
   compile_calls (snd (dsl_compile_finally rw)) = compile_calls (snd rw) \<and>
   error_log (snd (dsl_compile_finally rw)) = error_log (snd rw) \<and>
   stderr (snd (dsl_compile_finally rw)) = stderr (snd rw) \<and>
   sys_path (snd (dsl_compile_finally rw)) = tl (sys_path (snd rw))"
  by (simp add: dsl_compile_finally_def split: prod.splits list.splits)

lemma dsl_compile_handler:
  "pipeline_decorator_handler (snd (dsl_compile env a w)) = pipeline_decorator_handler w"
  by (simp add: dsl_compile_def finally_frame try_frame sys_path_insert0_def)

lemma run_events_sys_path_after:
  "sys_path (snd (run_events es w)) = sys_path_after es (sys_path w)"
  by (induction es w rule: run_events.induct) (simp_all add: decorate_frame)

lemma collect_sys_path_after:
  "sys_path (snd (collect_pipeline_funcs env name w))
     = sys_path_after (module_events env (sys_path w) name) (sys_path w)"
  by (simp add: collect_unfold Let_def run_events_sys_path_after)

lemma try_sys_path_after:
  "sys_path (snd (dsl_compile_try env a w))
     = sys_path_after (module_events env (sys_path w) (import_name env a)) (sys_path w)"
  by (simp add: try_unfold Let_def collect_sys_path_after parse_frame compile_frame
      split: sum.splits)

lemma sys_path_after_unassigned:
  "\<not> assigns_sys_path es \<Longrightarrow> sys_path_after es p = p"
  by (induction es p rule: sys_path_after.induct) simp_all

lemma collect_heap:
  assumes "\<not> assigns_handler (module_events env (sys_path w) name)"
  shows "heap (snd (collect_pipeline_funcs env name w)) (next_ref w)
           = registrations (module_events env (sys_path w) name)"
proof -
  let ?w1 = "w\<lparr>heap := (heap w)(next_ref w := []), next_ref := Suc (next_ref w),
                 pipeline_decorator_handler := Some (AddPipeline (next_ref w))\<rparr>"
  have h: "pipeline_decorator_handler ?w1 = Some (AddPipeline (next_ref w))"
    by simp
  from run_events_collects [OF h assms]
  have "heap (snd (run_events (module_events env (sys_path w) name) ?w1)) (next_ref w)
      = registrations (module_events env (sys_path w) name)"
    by simp
  then show ?thesis
    by (simp add: collect_unfold Let_def)
qed

lemma collect_result:
  "fst (collect_pipeline_funcs env name w) = Inr r \<Longrightarrow> r = next_ref w"
  by (simp add: collect_unfold Let_def split: sum.splits)

lemma try_heap:
  "heap (snd (dsl_compile_try env a w)) = heap (snd (collect_pipeline_funcs env (import_name env a) w))"
  by (simp add: try_unfold Let_def parse_frame compile_frame split: sum.splits)

lemma finally_heap:
  "heap (snd (dsl_compile_finally rw)) = heap (snd rw)"
  by (simp add: dsl_compile_finally_def split: prod.splits list.splits)

lemma dsl_compile_heap:
  assumes "\<not> assigns_handler
             (module_events env (dirname env (arg_py a) # sys_path w) (import_name env a))"
  shows "heap (snd (dsl_compile env a w)) (next_ref w)
           = registrations
               (module_events env (dirname env (arg_py a) # sys_path w) (import_name env a))"
proof -
  let ?w0 = "sys_path_insert0 env a w"
  have s: "sys_path ?w0 = dirname env (arg_py a) # sys_path w" and n: "next_ref ?w0 = next_ref w"
    by (simp_all add: sys_path_insert0_def)
  from assms s have "\<not> assigns_handler (module_events env (sys_path ?w0) (import_name env a))"
    by simp
  from collect_heap [OF this] s n
  have "heap (snd (collect_pipeline_funcs env (import_name env a) ?w0)) (next_ref w)
      = registrations
          (module_events env (dirname env (arg_py a) # sys_path w) (import_name env a))"
    by simp
  then show ?thesis
    by (simp add: dsl_compile_def finally_heap try_heap)
qed

lemma decorate_heap_other:
  "pipeline_decorator_handler w \<noteq> Some (AddPipeline r) \<Longrightarrow>
     heap (snd (decorate f w)) r = heap w r"
  by (auto simp: decorate_def add_pipeline_def split: option.splits handler.splits)

lemma run_events_collected:
  "heap (snd (run_events es w)) r = heap w r @ collected r (pipeline_decorator_handler w) es"
proof (induction es w rule: run_events.induct)
  case (2 f es w)
  show ?case
  proof (cases "pipeline_decorator_handler w = Some (AddPipeline r)")
    case True
    with 2 show ?thesis
      by (simp add: decorate_frame decorate_heap)
  next
    case False
    with 2 show ?thesis
      by (simp add: decorate_frame decorate_heap_other)
  qed
qed simp_all

lemma collected_registrations:
  "\<not> assigns_handler es \<Longrightarrow> collected r (Some (AddPipeline r)) es = registrations es"
  by (induction es rule: registrations.induct) simp_all

lemma collect_collected:
  "heap (snd (collect_pipeline_funcs env name w)) (next_ref w)
     = collected (next_ref w) (Some (AddPipeline (next_ref w)))
         (module_events env (sys_path w) name)"
  by (simp add: collect_unfold Let_def run_events_collected)

lemma dsl_compile_collected:
  "heap (snd (dsl_compile env a w)) (next_ref w)
     = collected (next_ref w) (Some (AddPipeline (next_ref w)))
         (module_events env (dirname env (arg_py a) # sys_path w) (import_name env a))"
proof -
  let ?w0 = "sys_path_insert0 env a w"
  have s: "sys_path ?w0 = dirname env (arg_py a) # sys_path w" and n: "next_ref ?w0 = next_ref w"
    by (simp_all add: sys_path_insert0_def)
  from collect_collected [of env "import_name env a" ?w0] s n
  show ?thesis
    by (simp add: dsl_compile_def finally_heap try_heap)
qed

lemmas demo_eval =
  dsl_compile_def dsl_compile_try_def dsl_compile_finally_def sys_path_insert0_def
  collect_pipeline_funcs_def PipelineCollectorContext_enter_def
  PipelineCollectorContext_exit_def import_module_def import_name_def
  parse_parameters_def compile_pipeline_function_def select_pipeline_func_def index0_def
  Compiler_compile_def decorate_def add_pipeline_def demo_env_def demo_world_def demo_args_def
  dsl_compile_options_def demo_dirname_def demo_basename_def demo_splitext_def
  demo_module_events_def demo_json_loads_def demo_missing_def
  default_function_name_def default_pipeline_parameters_def default_disable_type_check_def

section \<open>The claims\<close>

text \<open>
  C6. \<open>__enter__\<close> sets the process-global hook to the collector of the context (the
  closure over the list it returns), and \<open>__exit__\<close> sets it back to the value it had
  before \<open>__enter__\<close>, whatever the state \<open>w'\<close> reached in between. In the \<open>with\<close>
  statement, and so in every execution of \<open>dsl_compile\<close>, the import runs with the hook
  set to that collector: the new list holds afterwards exactly the functions decorated
  while the collector was the hook (all the registrations, when the module does not
  assign the hook itself). Afterwards the hook is what it was before, for every
  behaviour of the imported module, an import that raises included.
\<close>

theorem handler_set_and_restored:
  "pipeline_decorator_handler (snd (snd (PipelineCollectorContext_enter w)))
     = Some (AddPipeline (fst (snd (PipelineCollectorContext_enter w))))
   \<and> pipeline_decorator_handler
       (PipelineCollectorContext_exit (fst (PipelineCollectorContext_enter w)) w')
     = pipeline_decorator_handler w
   \<and> pipeline_decorator_handler (snd (collect_pipeline_funcs env name w))
     = pipeline_decorator_handler w
   \<and> pipeline_decorator_handler (snd (dsl_compile env a w)) = pipeline_decorator_handler w
   \<and> heap (snd (collect_pipeline_funcs env name w)) (next_ref w)
     = collected (next_ref w) (Some (AddPipeline (next_ref w)))
         (module_events env (sys_path w) name)
   \<and> heap (snd (dsl_compile env a w)) (next_ref w)
     = collected (next_ref w) (Some (AddPipeline (next_ref w)))
         (module_events env (dirname env (arg_py a) # sys_path w) (import_name env a))
   \<and> (\<not> assigns_handler (module_events env (sys_path w) name) \<longrightarrow>
        heap (snd (collect_pipeline_funcs env name w)) (next_ref w)
          = registrations (module_events env (sys_path w) name))
   \<and> (\<not> assigns_handler
          (module_events env (dirname env (arg_py a) # sys_path w) (import_name env a)) \<longrightarrow>
        heap (snd (dsl_compile env a w)) (next_ref w)
          = registrations
              (module_events env (dirname env (arg_py a) # sys_path w) (import_name env a)))"
proof -
  have enter: "pipeline_decorator_handler (snd (snd (PipelineCollectorContext_enter w)))
     = Some (AddPipeline (fst (snd (PipelineCollectorContext_enter w))))"
    by (simp add: PipelineCollectorContext_enter_def Let_def)
  have exit: "pipeline_decorator_handler
       (PipelineCollectorContext_exit (fst (PipelineCollectorContext_enter w)) w')
     = pipeline_decorator_handler w"
    by (simp add: PipelineCollectorContext_enter_def PipelineCollectorContext_exit_def Let_def)
  have after: "pipeline_decorator_handler (snd (collect_pipeline_funcs env name w))
     = pipeline_decorator_handler w"
    by (simp add: collect_frame)
  note during = collect_collected [of env name w] dsl_compile_collected [of env a w]
  have all_with: "heap (snd (collect_pipeline_funcs env name w)) (next_ref w)
          = registrations (module_events env (sys_path w) name)"
    if "\<not> assigns_handler (module_events env (sys_path w) name)"
    using that by (rule collect_heap)
  have all_dsl: "heap (snd (dsl_compile env a w)) (next_ref w)
          = registrations
              (module_events env (dirname env (arg_py a) # sys_path w) (import_name env a))"
    if "\<not> assigns_handler
          (module_events env (dirname env (arg_py a) # sys_path w) (import_name env a))"
    using that by (rule dsl_compile_heap)
  from enter exit after dsl_compile_handler [of env a w] during all_with all_dsl
  show ?thesis by blast
qed

text \<open>
  Other code has installed a hook. An import that registers two functions and raises:
  both are in the new list, and the installed hook is back afterwards. An import that
  registers a function, clears the hook and registers another: only the first is in the
  list, and the installed hook is back afterwards.
\<close>

theorem handler_set_and_restored_witness:
  "fst (dsl_compile
          (demo_env [Decorate (Func ''p'' 1), Decorate (Func ''q'' 2),
                     Raise (Exn (OtherException ''RuntimeError'') ''boom'')])
          (demo_args None None) demo_hooked_world)
     = Inl (Exn (OtherException ''RuntimeError'') ''boom'')
   \<and> pipeline_decorator_handler
       (snd (dsl_compile
          (demo_env [Decorate (Func ''p'' 1), Decorate (Func ''q'' 2),
                     Raise (Exn (OtherException ''RuntimeError'') ''boom'')])
          (demo_args None None) demo_hooked_world))
     = Some (Foreign 3)
   \<and> heap
       (snd (dsl_compile
          (demo_env [Decorate (Func ''p'' 1), Decorate (Func ''q'' 2),
                     Raise (Exn (OtherException ''RuntimeError'') ''boom'')])
          (demo_args None None) demo_hooked_world)) 0
     = [Func ''p'' 1, Func ''q'' 2]
   \<and> pipeline_decorator_handler
       (snd (dsl_compile
          (demo_env [Decorate (Func ''p'' 1), SetHandler None, Decorate (Func ''q'' 2)])
          (demo_args None None) demo_hooked_world))
     = Some (Foreign 3)
   \<and> heap
       (snd (dsl_compile
          (demo_env [Decorate (Func ''p'' 1), SetHandler None, Decorate (Func ''q'' 2)])
          (demo_args None None) demo_hooked_world)) 0
     = [Func ''p'' 1]"
proof -
  let ?e1 = "demo_env [Decorate (Func ''p'' 1), Decorate (Func ''q'' 2),
                     Raise (Exn (OtherException ''RuntimeError'') ''boom'')]"
  let ?e2 = "demo_env [Decorate (Func ''p'' 1), SetHandler None, Decorate (Func ''q'' 2)]"
  let ?a = "demo_args None None"
  have w: "pipeline_decorator_handler demo_hooked_world = Some (Foreign 3)
           \<and> next_ref demo_hooked_world = 0
           \<and> sys_path demo_hooked_world = [''/usr/lib/python3'']"
    by (simp add: demo_hooked_world_def demo_world_def)
  have d: "dirname ?e1 (arg_py ?a) = ''/proj'' \<and> dirname ?e2 (arg_py ?a) = ''/proj''"
    by (simp add: demo_env_def demo_args_def dsl_compile_options_def demo_dirname_def)
  have n: "import_name ?e1 ?a = ''pipe'' \<and> import_name ?e2 ?a = ''pipe''"
    by (simp add: import_name_def demo_env_def demo_args_def dsl_compile_options_def
        demo_basename_def demo_splitext_def)
  have m1: "module_events ?e1 [''/proj'', ''/usr/lib/python3''] ''pipe''
      = [Decorate (Func ''p'' 1), Decorate (Func ''q'' 2),
         Raise (Exn (OtherException ''RuntimeError'') ''boom'')]"
    by (simp add: demo_env_def demo_module_events_def)
  have m2: "module_events ?e2 [''/proj'', ''/usr/lib/python3''] ''pipe''
      = [Decorate (Func ''p'' 1), SetHandler None, Decorate (Func ''q'' 2)]"
    by (simp add: demo_env_def demo_module_events_def)
  have r: "fst (dsl_compile ?e1 ?a demo_hooked_world)
     = Inl (Exn (OtherException ''RuntimeError'') ''boom'')"
    by (simp add: demo_eval demo_hooked_world_def)
  note t1 = handler_set_and_restored [of demo_hooked_world demo_hooked_world ?e1 "[]" ?a]
  note t2 = handler_set_and_restored [of demo_hooked_world demo_hooked_world ?e2 "[]" ?a]
  have h1: "pipeline_decorator_handler (snd (dsl_compile ?e1 ?a demo_hooked_world))
      = Some (Foreign 3)"
    using t1 w by simp
  have h2: "pipeline_decorator_handler (snd (dsl_compile ?e2 ?a demo_hooked_world))
      = Some (Foreign 3)"
    using t2 w by simp
  have c1: "heap (snd (dsl_compile ?e1 ?a demo_hooked_world)) 0 = [Func ''p'' 1, Func ''q'' 2]"
    using t1 w d n m1 by simp
  have c2: "heap (snd (dsl_compile ?e2 ?a demo_hooked_world)) 0 = [Func ''p'' 1]"
    using t2 w d n m2 by simp
  from r h1 h2 c1 c2 show ?thesis by simp
qed

text \<open>
  C7. While the collector of a \<open>PipelineCollectorContext\<close> is the hook, the list
  \<open>pipeline_funcs\<close> holds exactly the functions that the module has passed to the
  decorator, in that order (the function registered as number \<open>n\<close> is at index \<open>n\<close>),
  and \<open>add_pipeline\<close> returns the function it is given.
\<close>

theorem pipeline_funcs_in_registration_order:
  assumes "PipelineCollectorContext_enter w = (self, r, w1)"
      and "\<not> assigns_handler es"
  shows "heap (snd (run_events es w1)) r = registrations es
       \<and> length (heap (snd (run_events es w1)) r) = length (registrations es)
       \<and> (\<forall>n < length (registrations es).
             heap (snd (run_events es w1)) r ! n = registrations es ! n)
       \<and> heap (snd (run_events (map Decorate fs) w1)) r = fs
       \<and> fst (add_pipeline r f w') = f
       \<and> fst (decorate f w') = f"
proof -
  from assms(1) have h: "pipeline_decorator_handler w1 = Some (AddPipeline r)"
    and e: "heap w1 r = []"
    by (auto simp: PipelineCollectorContext_enter_def Let_def)
  from run_events_collects [OF h assms(2)] e
  have general: "heap (snd (run_events es w1)) r = registrations es"
    by simp
  have na: "\<not> assigns_handler (map Decorate fs)"
    by (induction fs) simp_all
  have reg: "registrations (map Decorate fs) = fs"
    by (induction fs) simp_all
  from run_events_collects [OF h na] e reg
  have special: "heap (snd (run_events (map Decorate fs) w1)) r = fs"
    by simp
  have ret: "fst (add_pipeline r f w') = f"
    by (simp add: add_pipeline_def)
  from general special ret decorate_fst show ?thesis
    by simp
qed

theorem pipeline_funcs_in_registration_order_witness:
  "heap (snd (run_events
           [Decorate (Func ''train'' 1), SetSysPath [''/x''], Decorate (Func ''eval'' 2),
            Decorate (Func ''train'' 3)]
           (snd (snd (PipelineCollectorContext_enter demo_world))))) 0
     = [Func ''train'' 1, Func ''eval'' 2, Func ''train'' 3]
   \<and> fst (add_pipeline 0 (Func ''eval'' 2) demo_world) = Func ''eval'' 2"
proof -
  have enter: "PipelineCollectorContext_enter demo_world
      = (fst (PipelineCollectorContext_enter demo_world), 0,
         snd (snd (PipelineCollectorContext_enter demo_world)))"
    by (simp add: PipelineCollectorContext_enter_def demo_world_def)
  have na: "\<not> assigns_handler
      [Decorate (Func ''train'' 1), SetSysPath [''/x''], Decorate (Func ''eval'' 2),
       Decorate (Func ''train'' 3)]"
    by simp
  from pipeline_funcs_in_registration_order [OF enter na, of "[]" "Func ''eval'' 2" demo_world]
  show ?thesis by simp
qed

text \<open>
  C10. In every execution, \<open>dsl_compile\<close> puts \<open>os.path.dirname(py)\<close> in front of
  \<open>sys.path\<close> before the body of the \<open>try\<close> runs, so the import runs with it there,
  and the \<open>finally\<close> clause removes the first entry of what \<open>sys.path\<close> is when the
  body has returned or raised. When the part of the module that runs does not assign
  \<open>sys.path\<close>, \<open>sys.path\<close> after \<open>dsl_compile\<close> is \<open>sys.path\<close> before it.
\<close>

theorem sys_path_restored:
  "sys_path (sys_path_insert0 env a w) = dirname env (arg_py a) # sys_path w
   \<and> sys_path (snd (dsl_compile env a w))
       = tl (sys_path (snd (dsl_compile_try env a (sys_path_insert0 env a w))))
   \<and> sys_path (snd (dsl_compile env a w))
       = tl (sys_path_after
               (module_events env (dirname env (arg_py a) # sys_path w) (import_name env a))
               (dirname env (arg_py a) # sys_path w))
   \<and> (\<not> assigns_sys_path
          (module_events env (dirname env (arg_py a) # sys_path w) (import_name env a)) \<longrightarrow>
        sys_path (snd (dsl_compile env a w)) = sys_path w)"
proof -
  let ?es = "module_events env (dirname env (arg_py a) # sys_path w) (import_name env a)"
  have ins: "sys_path (sys_path_insert0 env a w) = dirname env (arg_py a) # sys_path w"
    by (simp add: sys_path_insert0_def)
  have fin: "sys_path (snd (dsl_compile env a w))
           = tl (sys_path (snd (dsl_compile_try env a (sys_path_insert0 env a w))))"
    by (simp add: dsl_compile_def finally_frame)
  have body: "sys_path (snd (dsl_compile_try env a (sys_path_insert0 env a w)))
           = sys_path_after ?es (dirname env (arg_py a) # sys_path w)"
    by (simp add: try_sys_path_after ins)
  have every: "sys_path (snd (dsl_compile env a w))
           = tl (sys_path_after ?es (dirname env (arg_py a) # sys_path w))"
    by (simp add: fin body)
  have same: "sys_path (snd (dsl_compile env a w)) = sys_path w" if "\<not> assigns_sys_path ?es"
    by (simp add: every sys_path_after_unassigned [OF that])
  from ins fin every same show ?thesis by blast
qed

text \<open>
  A module that registers one pipeline and does not touch \<open>sys.path\<close>: the pipeline is
  compiled and \<open>sys.path\<close> is the same afterwards. A module that assigns \<open>sys.path\<close>
  and raises: the exception goes on and the first entry of the assigned list is gone.
\<close>

theorem sys_path_restored_witness:
  "fst (dsl_compile (demo_env [Decorate (Func ''p'' 1)]) (demo_args None None) demo_world)
     = Inr ()
   \<and> sys_path (snd (dsl_compile (demo_env [Decorate (Func ''p'' 1)])
                      (demo_args None None) demo_world))
     = [''/usr/lib/python3'']
   \<and> fst (dsl_compile
            (demo_env [SetSysPath [''/opt'', ''/srv''],
                       Raise (Exn (OtherException ''RuntimeError'') ''boom'')])
            (demo_args None None) demo_world)
     = Inl (Exn (OtherException ''RuntimeError'') ''boom'')
   \<and> sys_path (snd (dsl_compile
            (demo_env [SetSysPath [''/opt'', ''/srv''],
                       Raise (Exn (OtherException ''RuntimeError'') ''boom'')])
            (demo_args None None) demo_world))
     = [''/srv'']"
proof -
  let ?e1 = "demo_env [Decorate (Func ''p'' 1)]"
  let ?e2 = "demo_env [SetSysPath [''/opt'', ''/srv''],
                       Raise (Exn (OtherException ''RuntimeError'') ''boom'')]"
  let ?a = "demo_args None None"
  have w: "sys_path demo_world = [''/usr/lib/python3'']"
    by (simp add: demo_world_def)
  have d: "dirname ?e1 (arg_py ?a) = ''/proj'' \<and> dirname ?e2 (arg_py ?a) = ''/proj''"
    by (simp add: demo_env_def demo_args_def dsl_compile_options_def demo_dirname_def)
  have n: "import_name ?e1 ?a = ''pipe'' \<and> import_name ?e2 ?a = ''pipe''"
    by (simp add: import_name_def demo_env_def demo_args_def dsl_compile_options_def
        demo_basename_def demo_splitext_def)
  have m1: "module_events ?e1 [''/proj'', ''/usr/lib/python3''] ''pipe''
      = [Decorate (Func ''p'' 1)]"
    by (simp add: demo_env_def demo_module_events_def)
  have m2: "module_events ?e2 [''/proj'', ''/usr/lib/python3''] ''pipe''
      = [SetSysPath [''/opt'', ''/srv''],
         Raise (Exn (OtherException ''RuntimeError'') ''boom'')]"
    by (simp add: demo_env_def demo_module_events_def)
  have r1: "fst (dsl_compile ?e1 ?a demo_world) = Inr ()"
    by (simp add: demo_eval)
  have r2: "fst (dsl_compile ?e2 ?a demo_world)
      = Inl (Exn (OtherException ''RuntimeError'') ''boom'')"
    by (simp add: demo_eval)
  note t1 = sys_path_restored [of ?e1 ?a demo_world, THEN conjunct2, THEN conjunct2,
      THEN conjunct2]
  note t2 = sys_path_restored [of ?e2 ?a demo_world, THEN conjunct2, THEN conjunct2,
      THEN conjunct1]
  have s1: "sys_path (snd (dsl_compile ?e1 ?a demo_world)) = [''/usr/lib/python3'']"
    using t1 w d n m1 by simp
  have s2: "sys_path (snd (dsl_compile ?e2 ?a demo_world)) = [''/srv'']"
    using t2 w d n m2 by simp
  from r1 r2 s1 s2 show ?thesis by simp
qed

lemma insert0_frame:
  "compile_calls (sys_path_insert0 env a w) = compile_calls w \<and>
   error_log (sys_path_insert0 env a w) = error_log w \<and>
   stderr (sys_path_insert0 env a w) = stderr w \<and>
   pipeline_decorator_handler (sys_path_insert0 env a w) = pipeline_decorator_handler w"
  by (simp add: sys_path_insert0_def)

lemma dsl_compile_calls:
  "compile_calls (snd (dsl_compile env a w))
     = compile_calls (snd (dsl_compile_try env a (sys_path_insert0 env a w)))"
  by (simp add: dsl_compile_def finally_frame)

lemma dsl_compile_error_log:
  "error_log (snd (dsl_compile env a w))
     = error_log (snd (dsl_compile_try env a (sys_path_insert0 env a w)))"
  by (simp add: dsl_compile_def finally_frame)

lemma collect_result_frame:
  assumes "collect_pipeline_funcs env name w0 = (res, w1)"
  shows "compile_calls w1 = compile_calls w0" and "error_log w1 = error_log w0"
    and "stderr w1 = stderr w0"
    and "pipeline_decorator_handler w1 = pipeline_decorator_handler w0"
  using collect_frame [of env name w0] assms by simp_all

lemma try_after_collect:
  assumes "collect_pipeline_funcs env (import_name env a) w0 = (Inr r, w1)"
  shows "dsl_compile_try env a w0 =
     (let pw = parse_parameters env (arg_pipeline_parameters a) w1 in
      case fst pw of
        Inl e \<Rightarrow> (Inl e, snd pw)
      | Inr v \<Rightarrow> compile_pipeline_function env (heap w1 r) (arg_function_name a)
                 (Some v) (arg_output a) (\<not> arg_disable_type_check a) (snd pw))"
  using assms by (simp add: try_unfold Let_def parse_frame split: sum.splits)

lemma compile_multiple:
  "1 < length fs \<Longrightarrow> \<not> truthy fn \<Longrightarrow>
     compile_pipeline_function env fs fn pp out tc w
       = (Inl (Exn ValueError (multiple_message env fs)), w)"
  by (auto simp: compile_pipeline_function_def)

lemma compile_required:
  "compile_pipeline_function env [] fn pp out tc w = (Inl (Exn ValueError required_message), w)"
  by (simp add: compile_pipeline_function_def)

text \<open>
  C1 (as amended). When the import returns with more than one function registered,
  \<open>--function\<close> is absent (or empty) and \<open>--pipeline-parameters\<close> is absent or parses,
  \<open>_compile_pipeline_function\<close> raises the \<open>ValueError\<close> whose message lists the names of
  the registered functions and asks for \<open>--function\<close>, and this is what leaves the body
  of \<open>dsl_compile\<close>. With more than one function and no \<open>--function\<close>,
  \<open>Compiler.compile\<close> is not called, whatever the parameters are.
\<close>

theorem multiple_pipelines_need_function:
  assumes "collect_pipeline_funcs env (import_name env a) (sys_path_insert0 env a w) = (Inr r, w1)"
      and "1 < length (heap w1 r)"
      and "\<not> truthy (arg_function_name a)"
  shows "compile_pipeline_function env (heap w1 r) (arg_function_name a) pp out tc w'
           = (Inl (Exn ValueError (multiple_message env (heap w1 r))), w')
       \<and> (fst (parse_parameters env (arg_pipeline_parameters a) w1) = Inr v \<longrightarrow>
            fst (dsl_compile_try env a (sys_path_insert0 env a w))
              = Inl (Exn ValueError (multiple_message env (heap w1 r))))
       \<and> compile_calls (snd (dsl_compile env a w)) = compile_calls w"
proof -
  note m = compile_multiple [OF assms(2) assms(3)]
  note t = try_after_collect [OF assms(1)]
  have raised: "fst (dsl_compile_try env a (sys_path_insert0 env a w))
              = Inl (Exn ValueError (multiple_message env (heap w1 r)))"
    if "fst (parse_parameters env (arg_pipeline_parameters a) w1) = Inr v"
    using that by (simp add: t Let_def m)
  have "compile_calls (snd (dsl_compile_try env a (sys_path_insert0 env a w))) = compile_calls w1"
    by (simp add: t Let_def m parse_frame split: sum.splits)
  with collect_result_frame(1) [OF assms(1)]
  have calls: "compile_calls (snd (dsl_compile env a w)) = compile_calls w"
    by (simp add: dsl_compile_calls insert0_frame)
  from m raised calls show ?thesis by simp
qed

theorem multiple_pipelines_need_function_witness:
  "fst (dsl_compile_try (demo_env [Decorate (Func ''f'' 1), Decorate (Func ''g'' 2)])
          (demo_args None None)
          (sys_path_insert0 (demo_env [Decorate (Func ''f'' 1), Decorate (Func ''g'' 2)])
             (demo_args None None) demo_world))
     = Inl (Exn ValueError
         (''There are multiple pipelines: ['' @ single_quoted ''f'' @ '', '' @ single_quoted ''g''
            @ '']. Please specify --function.''))
   \<and> compile_calls
       (snd (dsl_compile (demo_env [Decorate (Func ''f'' 1), Decorate (Func ''g'' 2)])
               (demo_args None None) demo_world))
     = []"
proof -
  let ?env = "demo_env [Decorate (Func ''f'' 1), Decorate (Func ''g'' 2)]"
  let ?a = "demo_args None None"
  let ?c = "collect_pipeline_funcs ?env (import_name ?env ?a) (sys_path_insert0 ?env ?a demo_world)"
  have "fst ?c = Inr 0"
    by (simp add: demo_eval)
  then have c: "?c = (Inr 0, snd ?c)"
    by (simp add: prod_eq_iff)
  have h: "heap (snd ?c) 0 = [Func ''f'' 1, Func ''g'' 2]"
    by (simp add: demo_eval)
  have l: "1 < length (heap (snd ?c) 0)"
    using h by simp
  have f: "\<not> truthy (arg_function_name ?a)"
    by (simp add: demo_eval)
  have p: "fst (parse_parameters ?env (arg_pipeline_parameters ?a) (snd ?c)) = Inr (JObject [])"
    by (simp add: parse_parameters_def demo_args_def dsl_compile_options_def
        default_pipeline_parameters_def)
  have m: "multiple_message ?env [Func ''f'' 1, Func ''g'' 2]
      = ''There are multiple pipelines: ['' @ single_quoted ''f'' @ '', '' @ single_quoted ''g''
            @ '']. Please specify --function.''"
    by (simp add: multiple_message_def repr_list_def demo_env_def demo_repr_def)
  have w: "compile_calls demo_world = []"
    by (simp add: demo_world_def)
  from multiple_pipelines_need_function [OF c l f, of None "[]" True demo_world "JObject []"] p h m w
  show ?thesis by simp
qed

text \<open>
  C1 as stated fails: two functions are registered and \<open>--function\<close> is absent, but
  \<open>--pipeline-parameters\<close> is not JSON; the \<open>JSONDecodeError\<close> is raised before
  \<open>_compile_pipeline_function\<close> is reached, and no \<open>ValueError\<close> about several pipelines
  is raised.
\<close>

theorem multiple_pipelines_counterexample:
  "arg_function_name (demo_args None (Some ''{'')) = None
   \<and> heap (snd (dsl_compile (demo_env [Decorate (Func ''f'' 1), Decorate (Func ''g'' 2)])
                  (demo_args None (Some ''{'')) demo_world)) 0
       = [Func ''f'' 1, Func ''g'' 2]
   \<and> fst (dsl_compile_try (demo_env [Decorate (Func ''f'' 1), Decorate (Func ''g'' 2)])
          (demo_args None (Some ''{''))
          (sys_path_insert0 (demo_env [Decorate (Func ''f'' 1), Decorate (Func ''g'' 2)])
             (demo_args None (Some ''{'')) demo_world))
       = Inl (Exn JSONDecodeError ''Expecting value: line 1 column 1 (char 0)'')
   \<and> fst (dsl_compile_try (demo_env [Decorate (Func ''f'' 1), Decorate (Func ''g'' 2)])
          (demo_args None (Some ''{''))
          (sys_path_insert0 (demo_env [Decorate (Func ''f'' 1), Decorate (Func ''g'' 2)])
             (demo_args None (Some ''{'')) demo_world))
       \<noteq> Inl (Exn ValueError
           (multiple_message (demo_env [Decorate (Func ''f'' 1), Decorate (Func ''g'' 2)])
              [Func ''f'' 1, Func ''g'' 2]))
   \<and> fst (dsl_compile (demo_env [Decorate (Func ''f'' 1), Decorate (Func ''g'' 2)])
            (demo_args None (Some ''{'')) demo_world)
       = Inl (Exn JSONDecodeError ''Expecting value: line 1 column 1 (char 0)'')"
  by (simp add: demo_eval)

text \<open>
  C2 (as amended). When the import returns with no function registered and
  \<open>--pipeline-parameters\<close> is absent or parses, \<open>_compile_pipeline_function\<close> raises the
  \<open>ValueError\<close> that asks for a decorated function, and this is what leaves the body of
  \<open>dsl_compile\<close>. With no function registered, \<open>Compiler.compile\<close> is not called,
  whatever the parameters are.
\<close>

theorem no_pipeline_is_an_error:
  assumes "collect_pipeline_funcs env (import_name env a) (sys_path_insert0 env a w) = (Inr r, w1)"
      and "length (heap w1 r) = 0"
  shows "compile_pipeline_function env (heap w1 r) fn pp out tc w'
           = (Inl (Exn ValueError required_message), w')
       \<and> (fst (parse_parameters env (arg_pipeline_parameters a) w1) = Inr v \<longrightarrow>
            fst (dsl_compile_try env a (sys_path_insert0 env a w))
              = Inl (Exn ValueError required_message))
       \<and> compile_calls (snd (dsl_compile env a w)) = compile_calls w"
proof -
  from assms(2) have e: "heap w1 r = []" by simp
  note t = try_after_collect [OF assms(1)]
  have raised: "fst (dsl_compile_try env a (sys_path_insert0 env a w))
              = Inl (Exn ValueError required_message)"
    if "fst (parse_parameters env (arg_pipeline_parameters a) w1) = Inr v"
    using that by (simp add: t Let_def e compile_required)
  have "compile_calls (snd (dsl_compile_try env a (sys_path_insert0 env a w))) = compile_calls w1"
    by (simp add: t Let_def e compile_required parse_frame split: sum.splits)
  with collect_result_frame(1) [OF assms(1)]
  have calls: "compile_calls (snd (dsl_compile env a w)) = compile_calls w"
    by (simp add: dsl_compile_calls insert0_frame)
  from raised calls show ?thesis by (simp add: e compile_required)
qed

theorem no_pipeline_is_an_error_witness:
  "fst (dsl_compile_try (demo_env [SetSysPath [''/proj'', ''/opt'']])
          (demo_args (Some ''train'') (Some ''{}''))
          (sys_path_insert0 (demo_env [SetSysPath [''/proj'', ''/opt'']])
             (demo_args (Some ''train'') (Some ''{}'')) demo_world))
     = Inl (Exn ValueError
         ''A function with @dsl.pipeline decorator is required in the py file.'')
   \<and> compile_calls
       (snd (dsl_compile (demo_env [SetSysPath [''/proj'', ''/opt'']])
               (demo_args (Some ''train'') (Some ''{}'')) demo_world))
     = []"
proof -
  let ?env = "demo_env [SetSysPath [''/proj'', ''/opt'']]"
  let ?a = "demo_args (Some ''train'') (Some ''{}'')"
  let ?c = "collect_pipeline_funcs ?env (import_name ?env ?a) (sys_path_insert0 ?env ?a demo_world)"
  have "fst ?c = Inr 0"
    by (simp add: demo_eval)
  then have c: "?c = (Inr 0, snd ?c)"
    by (simp add: prod_eq_iff)
  have l: "length (heap (snd ?c) 0) = 0"
    by (simp add: demo_eval)
  have p: "fst (parse_parameters ?env (arg_pipeline_parameters ?a) (snd ?c)) = Inr (JObject [])"
    by (simp add: parse_parameters_def demo_args_def dsl_compile_options_def
        demo_env_def demo_json_loads_def)
  have w: "compile_calls demo_world = []"
    by (simp add: demo_world_def)
  from no_pipeline_is_an_error [OF c l, of None None "[]" True demo_world "JObject []"] p w
  show ?thesis by (simp add: required_message_def)
qed

text \<open>
  C2 as stated fails: no function is registered, but \<open>--pipeline-parameters\<close> is not
  JSON; the \<open>JSONDecodeError\<close> is raised before \<open>_compile_pipeline_function\<close> is
  reached, and the error about the missing pipeline function is not raised.
\<close>

theorem no_pipeline_counterexample:
  "heap (snd (dsl_compile (demo_env []) (demo_args None (Some ''[1, 2'')) demo_world)) 0 = []
   \<and> fst (dsl_compile_try (demo_env []) (demo_args None (Some ''[1, 2''))
            (sys_path_insert0 (demo_env []) (demo_args None (Some ''[1, 2'')) demo_world))
       = Inl (Exn JSONDecodeError ''Expecting value: line 1 column 1 (char 0)'')
   \<and> fst (dsl_compile_try (demo_env []) (demo_args None (Some ''[1, 2''))
            (sys_path_insert0 (demo_env []) (demo_args None (Some ''[1, 2'')) demo_world))
       \<noteq> Inl (Exn ValueError required_message)
   \<and> fst (dsl_compile (demo_env []) (demo_args None (Some ''[1, 2'')) demo_world)
       = Inl (Exn JSONDecodeError ''Expecting value: line 1 column 1 (char 0)'')"
  by (simp add: demo_eval)

lemma parse_invalid:
  "json_loads env s = Inl e \<Longrightarrow> class_of e = JSONDecodeError \<Longrightarrow>
     parse_parameters env (Some s) w
       = (Inl e, w\<lparr>error_log := error_log w @ [parse_error_message s]\<rparr>)"
  by (simp add: parse_parameters_def)

lemma dsl_compile_result:
  "sys_path (snd (dsl_compile_try env a (sys_path_insert0 env a w))) \<noteq> [] \<Longrightarrow>
     fst (dsl_compile env a w) = fst (dsl_compile_try env a (sys_path_insert0 env a w))"
  by (cases "dsl_compile_try env a (sys_path_insert0 env a w)")
     (auto simp: dsl_compile_def dsl_compile_finally_def split: list.splits)

text \<open>
  C4 (as amended). When the import returns, \<open>--pipeline-parameters\<close> is given and
  \<open>json.loads\<close> raises a \<open>JSONDecodeError\<close> on it, the message is logged, the error
  leaves the body of \<open>dsl_compile\<close>, and it leaves \<open>dsl_compile\<close> itself when
  \<open>sys.path\<close> is not empty at the \<open>finally\<close> clause; \<open>Compiler.compile\<close> is not
  called.
\<close>

theorem invalid_parameters_raise:
  assumes "collect_pipeline_funcs env (import_name env a) (sys_path_insert0 env a w) = (Inr r, w1)"
      and "arg_pipeline_parameters a = Some s"
      and "json_loads env s = Inl e"
      and "class_of e = JSONDecodeError"
  shows "dsl_compile_try env a (sys_path_insert0 env a w)
           = (Inl e, w1\<lparr>error_log := error_log w1 @ [parse_error_message s]\<rparr>)
       \<and> error_log (snd (dsl_compile env a w)) = error_log w @ [parse_error_message s]
       \<and> (sys_path w1 \<noteq> [] \<longrightarrow> fst (dsl_compile env a w) = Inl e)
       \<and> compile_calls (snd (dsl_compile env a w)) = compile_calls w"
proof -
  note p = parse_invalid [OF assms(3) assms(4)]
  have body: "dsl_compile_try env a (sys_path_insert0 env a w)
           = (Inl e, w1\<lparr>error_log := error_log w1 @ [parse_error_message s]\<rparr>)"
    by (simp add: try_after_collect [OF assms(1)] assms(2) p Let_def)
  note fr = collect_result_frame [OF assms(1)]
  have log: "error_log (snd (dsl_compile env a w)) = error_log w @ [parse_error_message s]"
    by (simp add: dsl_compile_error_log body fr insert0_frame)
  have out: "fst (dsl_compile env a w) = Inl e" if "sys_path w1 \<noteq> []"
    using that dsl_compile_result [of env a w] by (simp add: body)
  have calls: "compile_calls (snd (dsl_compile env a w)) = compile_calls w"
    by (simp add: dsl_compile_calls body fr insert0_frame)
  from body log out calls show ?thesis by simp
qed

theorem invalid_parameters_raise_witness:
  "fst (dsl_compile (demo_env [Decorate (Func ''p'' 1)]) (demo_args None (Some ''{a: 1}''))
          demo_world)
     = Inl (Exn JSONDecodeError ''Expecting value: line 1 column 1 (char 0)'')
   \<and> error_log (snd (dsl_compile (demo_env [Decorate (Func ''p'' 1)])
                       (demo_args None (Some ''{a: 1}'')) demo_world))
     = [''Failed to parse --pipeline-parameters argument: {a: 1}'']
   \<and> compile_calls (snd (dsl_compile (demo_env [Decorate (Func ''p'' 1)])
                           (demo_args None (Some ''{a: 1}'')) demo_world))
     = []"
proof -
  let ?env = "demo_env [Decorate (Func ''p'' 1)]"
  let ?a = "demo_args None (Some ''{a: 1}'')"
  let ?c = "collect_pipeline_funcs ?env (import_name ?env ?a) (sys_path_insert0 ?env ?a demo_world)"
  let ?e = "Exn JSONDecodeError ''Expecting value: line 1 column 1 (char 0)''"
  have "fst ?c = Inr 0"
    by (simp add: demo_eval)
  then have c: "?c = (Inr 0, snd ?c)"
    by (simp add: prod_eq_iff)
  have a: "arg_pipeline_parameters ?a = Some ''{a: 1}''"
    by (simp add: demo_args_def dsl_compile_options_def)
  have j: "json_loads ?env ''{a: 1}'' = Inl ?e"
    by (simp add: demo_env_def demo_json_loads_def)
  have k: "class_of ?e = JSONDecodeError"
    by simp
  have sp: "sys_path (snd ?c) \<noteq> []"
    by (simp add: demo_eval)
  have w: "compile_calls demo_world = [] \<and> error_log demo_world = []"
    by (simp add: demo_world_def)
  from invalid_parameters_raise [OF c a j k] sp w
  show ?thesis by (simp add: parse_error_message_def)
qed

text \<open>
  C4 as stated fails: \<open>--pipeline-parameters\<close> is given and is not JSON, but the import
  raises; \<open>json.loads\<close> is never called, nothing is logged, and the exception that
  leaves \<open>dsl_compile\<close> is the one of the import.
\<close>

theorem invalid_parameters_counterexample:
  "arg_pipeline_parameters (demo_args None (Some ''{a: 1}'')) = Some ''{a: 1}''
   \<and> json_loads (demo_env [Raise (Exn (OtherException ''ZeroDivisionError'') ''division by zero'')])
         ''{a: 1}''
       = Inl (Exn JSONDecodeError ''Expecting value: line 1 column 1 (char 0)'')
   \<and> fst (dsl_compile
            (demo_env [Raise (Exn (OtherException ''ZeroDivisionError'') ''division by zero'')])
            (demo_args None (Some ''{a: 1}'')) demo_world)
       = Inl (Exn (OtherException ''ZeroDivisionError'') ''division by zero'')
   \<and> error_log (snd (dsl_compile
            (demo_env [Raise (Exn (OtherException ''ZeroDivisionError'') ''division by zero'')])
            (demo_args None (Some ''{a: 1}'')) demo_world))
       = []"
  by (simp add: demo_eval)

lemma compile_selected:
  "fs \<noteq> [] \<Longrightarrow> \<not> (1 < length fs \<and> \<not> truthy fn) \<Longrightarrow>
     select_pipeline_func fs fn = Inr f \<Longrightarrow>
     compile_pipeline_function env fs fn pp out tc w
       = Compiler_compile env
           \<lparr>pipeline_func = f, pipeline_parameters = pp, package_path = out, type_check = tc\<rparr> w"
  by (auto simp: compile_pipeline_function_def)

lemma Compiler_compile_calls:
  "compile_calls (snd (Compiler_compile env c w)) = compile_calls w @ [c]"
  by (simp add: Compiler_compile_def split: option.splits)

lemma compile_new_calls:
  "list_all (\<lambda>c. pipeline_parameters c = pp \<and> package_path c = out \<and> type_check c = tc)
     (new_compile_calls w (snd (compile_pipeline_function env fs fn pp out tc w)))"
  by (simp add: compile_pipeline_function_def new_compile_calls_def Compiler_compile_calls
      split: sum.splits)

lemma parse_omitted: "parse_parameters env None w = (Inr (JObject []), w)"
  by (simp add: parse_parameters_def)

lemma new_compile_calls_eq:
  "compile_calls w' = compile_calls w \<Longrightarrow> new_compile_calls w w'' = new_compile_calls w' w''"
  by (simp add: new_compile_calls_def)

lemma try_new_calls_omitted:
  assumes "arg_pipeline_parameters a = None"
  shows "list_all (\<lambda>c. pipeline_parameters c = Some (JObject [])
                      \<and> type_check c = (\<not> arg_disable_type_check a))
           (new_compile_calls w0 (snd (dsl_compile_try env a w0)))"
proof (cases "fst (collect_pipeline_funcs env (import_name env a) w0)")
  case (Inl e)
  then have "compile_calls (snd (dsl_compile_try env a w0)) = compile_calls w0"
    by (simp add: try_unfold Let_def collect_frame)
  then show ?thesis by (simp add: new_compile_calls_def)
next
  case (Inr r)
  let ?w1 = "snd (collect_pipeline_funcs env (import_name env a) w0)"
  from Inr have t: "dsl_compile_try env a w0
      = compile_pipeline_function env (heap ?w1 r) (arg_function_name a)
          (Some (JObject [])) (arg_output a) (\<not> arg_disable_type_check a) ?w1"
    by (simp add: try_unfold Let_def assms parse_omitted)
  have "compile_calls ?w1 = compile_calls w0"
    by (simp add: collect_frame)
  from new_compile_calls_eq [OF this]
  have "new_compile_calls w0 (snd (dsl_compile_try env a w0))
      = new_compile_calls ?w1 (snd (dsl_compile_try env a w0))" .
  moreover have "list_all (\<lambda>c. pipeline_parameters c = Some (JObject [])
                      \<and> type_check c = (\<not> arg_disable_type_check a))
           (new_compile_calls ?w1 (snd (dsl_compile_try env a w0)))"
    unfolding t
    using compile_new_calls [of "Some (JObject [])" "arg_output a" "\<not> arg_disable_type_check a"
        ?w1 env "heap ?w1 r" "arg_function_name a"]
    by (simp add: list_all_iff)
  ultimately show ?thesis by simp
qed

text \<open>
  C9 (as amended). When \<open>--pipeline-parameters\<close> is omitted, every call of
  \<open>Compiler.compile\<close> that \<open>dsl_compile\<close> makes has \<open>pipeline_parameters\<close> equal to the
  empty dictionary (not \<open>None\<close>) and \<open>type_check\<close> equal to the negation of the
  \<open>--disable-type-check\<close> flag; the call is made, once, when the import returns and a
  pipeline function is selected. The flag is false when it is not given, so type checking
  is on by default.
\<close>

theorem omitted_parameters_compile_call:
  assumes "a = dsl_compile_options py_opt output_opt function_opt None flag_given"
  shows "list_all (\<lambda>c. pipeline_parameters c = Some (JObject []) \<and> type_check c = (\<not> flag_given))
           (new_compile_calls w (snd (dsl_compile env a w)))
       \<and> (collect_pipeline_funcs env (import_name env a) (sys_path_insert0 env a w) = (Inr r, w1)
            \<and> heap w1 r \<noteq> []
            \<and> (truthy (arg_function_name a) \<or> length (heap w1 r) = 1)
            \<and> select_pipeline_func (heap w1 r) (arg_function_name a) = Inr f
          \<longrightarrow> new_compile_calls w (snd (dsl_compile env a w))
                = [\<lparr>pipeline_func = f, pipeline_parameters = Some (JObject []),
                    package_path = output_opt, type_check = \<not> flag_given\<rparr>])
       \<and> arg_disable_type_check
           (dsl_compile_options py_opt output_opt function_opt parameters_opt False) = False"
proof -
  from assms have om: "arg_pipeline_parameters a = None"
    and fl: "arg_disable_type_check a = flag_given"
    and ou: "arg_output a = output_opt"
    by (simp_all add: dsl_compile_options_def default_pipeline_parameters_def
        default_disable_type_check_def)
  let ?w0 = "sys_path_insert0 env a w"
  have cc: "compile_calls ?w0 = compile_calls w"
    by (simp add: insert0_frame)
  have nc: "new_compile_calls w (snd (dsl_compile env a w))
          = new_compile_calls ?w0 (snd (dsl_compile_try env a ?w0))"
    by (simp add: new_compile_calls_def dsl_compile_calls cc)
  from try_new_calls_omitted [OF om, of ?w0 env]
  have every: "list_all (\<lambda>c. pipeline_parameters c = Some (JObject [])
                           \<and> type_check c = (\<not> flag_given))
           (new_compile_calls w (snd (dsl_compile env a w)))"
    by (simp add: nc fl)
  have made: "new_compile_calls w (snd (dsl_compile env a w))
                = [\<lparr>pipeline_func = f, pipeline_parameters = Some (JObject []),
                    package_path = output_opt, type_check = \<not> flag_given\<rparr>]"
    if c: "collect_pipeline_funcs env (import_name env a) ?w0 = (Inr r, w1)"
      and ne: "heap w1 r \<noteq> []"
      and un: "truthy (arg_function_name a) \<or> length (heap w1 r) = 1"
      and se: "select_pipeline_func (heap w1 r) (arg_function_name a) = Inr f"
  proof -
    from un have un': "\<not> (1 < length (heap w1 r) \<and> \<not> truthy (arg_function_name a))"
      by auto
    have "dsl_compile_try env a ?w0
        = Compiler_compile env
            \<lparr>pipeline_func = f, pipeline_parameters = Some (JObject []),
             package_path = output_opt, type_check = \<not> flag_given\<rparr> w1"
      by (simp add: try_after_collect [OF c] om parse_omitted Let_def
          compile_selected [OF ne un' se] fl ou)
    then have "compile_calls (snd (dsl_compile_try env a ?w0))
        = compile_calls w1 @ [\<lparr>pipeline_func = f, pipeline_parameters = Some (JObject []),
             package_path = output_opt, type_check = \<not> flag_given\<rparr>]"
      by (simp add: Compiler_compile_calls)
    moreover have "compile_calls w1 = compile_calls ?w0"
      using collect_result_frame(1) [OF c] .
    ultimately show ?thesis
      by (simp add: new_compile_calls_def dsl_compile_calls cc)
  qed
  have dflt: "arg_disable_type_check
           (dsl_compile_options py_opt output_opt function_opt parameters_opt False) = False"
    by (simp add: dsl_compile_options_def default_disable_type_check_def)
  from every made dflt show ?thesis by blast
qed

theorem omitted_parameters_compile_call_witness:
  "new_compile_calls demo_world
     (snd (dsl_compile (demo_env [Decorate (Func ''p'' 1)]) (demo_args None None) demo_world))
     = [\<lparr>pipeline_func = Func ''p'' 1, pipeline_parameters = Some (JObject []),
         package_path = ''out.json'', type_check = True\<rparr>]
   \<and> list_all (\<lambda>c. pipeline_parameters c = Some (JObject []) \<and> type_check c = True)
       (new_compile_calls demo_world
          (snd (dsl_compile (demo_env [Decorate (Func ''p'' 1)]) (demo_args None None)
             demo_world)))"
proof -
  let ?env = "demo_env [Decorate (Func ''p'' 1)]"
  let ?a = "demo_args None None"
  let ?c = "collect_pipeline_funcs ?env (import_name ?env ?a) (sys_path_insert0 ?env ?a demo_world)"
  have a: "?a = dsl_compile_options ''/proj/pipe.py'' ''out.json'' None None False"
    by (simp add: demo_args_def)
  have "fst ?c = Inr 0"
    by (simp add: demo_eval)
  then have c: "?c = (Inr 0, snd ?c)"
    by (simp add: prod_eq_iff)
  have h: "heap (snd ?c) 0 = [Func ''p'' 1]"
    by (simp add: demo_eval)
  have fn: "arg_function_name ?a = None"
    by (simp add: demo_args_def dsl_compile_options_def default_function_name_def)
  have s: "select_pipeline_func (heap (snd ?c) 0) (arg_function_name ?a) = Inr (Func ''p'' 1)"
    unfolding h fn by (simp add: select_pipeline_func_def index0_def)
  have hyps: "?c = (Inr 0, snd ?c) \<and> heap (snd ?c) 0 \<noteq> []
      \<and> (truthy (arg_function_name ?a) \<or> length (heap (snd ?c) 0) = 1)
      \<and> select_pipeline_func (heap (snd ?c) 0) (arg_function_name ?a) = Inr (Func ''p'' 1)"
    using c s h by simp
  note t = omitted_parameters_compile_call
    [OF a, of demo_world ?env 0 "snd ?c" "Func ''p'' 1" None]
  from t [THEN conjunct1] t [THEN conjunct2, THEN conjunct1] hyps
  show ?thesis by simp
qed

text \<open>
  C9 as stated fails: \<open>--pipeline-parameters\<close> is omitted and the module registers no
  pipeline function; \<open>Compiler.compile\<close> is not called at all.
\<close>

theorem omitted_parameters_counterexample:
  "arg_pipeline_parameters (demo_args None None) = None
   \<and> fst (dsl_compile (demo_env []) (demo_args None None) demo_world)
       = Inl (Exn ValueError required_message)
   \<and> compile_calls (snd (dsl_compile (demo_env []) (demo_args None None) demo_world)) = []"
  by (simp add: demo_eval)

lemma find_first_index:
  assumes "i < length xs" and "P (xs ! i)" and "\<forall>j<i. \<not> P (xs ! j)"
  shows "find P xs = Some (xs ! i)"
  using assms by (auto simp: find_Some_iff)

lemma select_named:
  "n \<noteq> [] \<Longrightarrow> select_pipeline_func fs (Some n)
     = (case find (\<lambda>x. func_name x = n) fs of
          None \<Rightarrow> Inl (Exn ValueError (not_exist_message n))
        | Some f \<Rightarrow> Inr f)"
  by (simp add: select_pipeline_func_def)

lemma compile_named:
  "fs \<noteq> [] \<Longrightarrow> n \<noteq> [] \<Longrightarrow>
     compile_pipeline_function env fs (Some n) pp out tc w
       = (case find (\<lambda>x. func_name x = n) fs of
            None \<Rightarrow> (Inl (Exn ValueError (not_exist_message n)), w)
          | Some f \<Rightarrow>
              Compiler_compile env
                \<lparr>pipeline_func = f, pipeline_parameters = pp, package_path = out,
                 type_check = tc\<rparr> w)"
  by (simp add: compile_pipeline_function_def select_named split: option.splits)

lemma compile_single:
  "\<not> truthy fn \<Longrightarrow>
     compile_pipeline_function env [f] fn pp out tc w
       = Compiler_compile env
           \<lparr>pipeline_func = f, pipeline_parameters = pp, package_path = out, type_check = tc\<rparr> w"
  by (simp add: compile_pipeline_function_def select_pipeline_func_def index0_def)

text \<open>
  C3 (as amended). With at least one discovered function and a non-empty
  \<open>function_name\<close>: when some discovered function has that \<open>__name__\<close>, the first such
  function is the \<open>pipeline_func\<close> passed to \<open>Compiler.compile\<close>; when none has, the
  \<open>ValueError\<close> saying that the function does not exist is raised and nothing is
  compiled. With \<open>function_name\<close> \<open>None\<close> or empty and exactly one discovered function,
  that function is passed to \<open>Compiler.compile\<close>.
\<close>

theorem function_selection:
  assumes "pipeline_funcs \<noteq> []"
  shows "(n \<noteq> [] \<and> i < length pipeline_funcs \<and> func_name (pipeline_funcs ! i) = n
            \<and> (\<forall>j<i. func_name (pipeline_funcs ! j) \<noteq> n)
          \<longrightarrow> compile_pipeline_function env pipeline_funcs (Some n) pp out tc w
                = Compiler_compile env
                    \<lparr>pipeline_func = pipeline_funcs ! i, pipeline_parameters = pp,
                     package_path = out, type_check = tc\<rparr> w)
       \<and> (n \<noteq> [] \<and> n \<notin> func_name ` set pipeline_funcs
          \<longrightarrow> compile_pipeline_function env pipeline_funcs (Some n) pp out tc w
                = (Inl (Exn ValueError (not_exist_message n)), w))
       \<and> (\<not> truthy fn \<and> pipeline_funcs = [f]
          \<longrightarrow> compile_pipeline_function env pipeline_funcs fn pp out tc w
                = Compiler_compile env
                    \<lparr>pipeline_func = f, pipeline_parameters = pp,
                     package_path = out, type_check = tc\<rparr> w)
       \<and> compile_calls (snd (Compiler_compile env c w)) = compile_calls w @ [c]"
proof -
  have first: "compile_pipeline_function env pipeline_funcs (Some n) pp out tc w
                = Compiler_compile env
                    \<lparr>pipeline_func = pipeline_funcs ! i, pipeline_parameters = pp,
                     package_path = out, type_check = tc\<rparr> w"
    if "n \<noteq> []" and "i < length pipeline_funcs" and "func_name (pipeline_funcs ! i) = n"
      and "\<forall>j<i. func_name (pipeline_funcs ! j) \<noteq> n"
  proof -
    from that have "find (\<lambda>x. func_name x = n) pipeline_funcs = Some (pipeline_funcs ! i)"
      by (intro find_first_index) simp_all
    with assms that(1) show ?thesis
      by (simp add: compile_named)
  qed
  have none: "compile_pipeline_function env pipeline_funcs (Some n) pp out tc w
                = (Inl (Exn ValueError (not_exist_message n)), w)"
    if "n \<noteq> []" and "n \<notin> func_name ` set pipeline_funcs"
  proof -
    from that(2) have "find (\<lambda>x. func_name x = n) pipeline_funcs = None"
      by (auto simp: find_None_iff)
    with assms that(1) show ?thesis
      by (simp add: compile_named)
  qed
  have single: "compile_pipeline_function env pipeline_funcs fn pp out tc w
                = Compiler_compile env
                    \<lparr>pipeline_func = f, pipeline_parameters = pp,
                     package_path = out, type_check = tc\<rparr> w"
    if "\<not> truthy fn" and "pipeline_funcs = [f]"
    using that by (simp add: compile_single)
  from first none single Compiler_compile_calls show ?thesis
    by blast
qed

text \<open>
  Two functions are called \<open>train\<close>; \<open>--function train\<close> compiles the first of them, and
  \<open>--function score\<close> is an error.
\<close>

theorem function_selection_witness:
  "compile_calls (snd (compile_pipeline_function (demo_env [])
       [Func ''eval'' 1, Func ''train'' 2, Func ''train'' 3] (Some ''train'')
       (Some (JObject [])) ''out.json'' True demo_world))
     = [\<lparr>pipeline_func = Func ''train'' 2, pipeline_parameters = Some (JObject []),
         package_path = ''out.json'', type_check = True\<rparr>]
   \<and> compile_pipeline_function (demo_env [])
       [Func ''eval'' 1, Func ''train'' 2, Func ''train'' 3] (Some ''score'')
       (Some (JObject [])) ''out.json'' True demo_world
     = (Inl (Exn ValueError (not_exist_message ''score'')), demo_world)"
proof -
  let ?fs = "[Func ''eval'' 1, Func ''train'' 2, Func ''train'' 3]"
  let ?call = "\<lparr>pipeline_func = Func ''train'' 2, pipeline_parameters = Some (JObject []),
         package_path = ''out.json'', type_check = True\<rparr>"
  have ne: "?fs \<noteq> []" by simp
  have h1: "''train'' \<noteq> [] \<and> 1 < length ?fs \<and> func_name (?fs ! 1) = ''train''
            \<and> (\<forall>j<1. func_name (?fs ! j) \<noteq> ''train'')"
    by simp
  have h2: "''score'' \<noteq> [] \<and> ''score'' \<notin> func_name ` set ?fs"
    by simp
  have w: "compile_calls demo_world = []"
    by (simp add: demo_world_def)
  note a = function_selection [OF ne, of "''train''" 1 "demo_env []" "Some (JObject [])"
      "''out.json''" True demo_world None "Func ''x'' 0" ?call]
  note b = function_selection [OF ne, of "''score''" 0 "demo_env []" "Some (JObject [])"
      "''out.json''" True demo_world None "Func ''x'' 0" ?call]
  from a [THEN conjunct1] h1
  have first: "compile_pipeline_function (demo_env []) ?fs (Some ''train'')
       (Some (JObject [])) ''out.json'' True demo_world
     = Compiler_compile (demo_env []) ?call demo_world"
    by simp
  from b [THEN conjunct2, THEN conjunct1] h2
  have second: "compile_pipeline_function (demo_env []) ?fs (Some ''score'')
       (Some (JObject [])) ''out.json'' True demo_world
     = (Inl (Exn ValueError (not_exist_message ''score'')), demo_world)"
    by simp
  from a [THEN conjunct2, THEN conjunct2, THEN conjunct2] w
  have "compile_calls (snd (Compiler_compile (demo_env []) ?call demo_world)) = [?call]"
    by simp
  with first second show ?thesis by simp
qed

text \<open>
  C3 as stated fails: \<open>function_name\<close> is the empty string, which is not \<open>None\<close>, and no
  discovered function has that name; no \<open>ValueError\<close> is raised, the only discovered
  function is compiled.
\<close>

theorem function_selection_counterexample:
  "Some '''' \<noteq> (None :: string option)
   \<and> find (\<lambda>x. func_name x = '''') [Func ''p'' 1] = None
   \<and> fst (compile_pipeline_function (demo_env []) [Func ''p'' 1] (Some '''')
            (Some (JObject [])) ''out.json'' True demo_world)
       = Inr ()
   \<and> compile_calls (snd (compile_pipeline_function (demo_env []) [Func ''p'' 1] (Some '''')
            (Some (JObject [])) ''out.json'' True demo_world))
       = [\<lparr>pipeline_func = Func ''p'' 1, pipeline_parameters = Some (JObject []),
           package_path = ''out.json'', type_check = True\<rparr>]"
  by (simp add: compile_pipeline_function_def select_pipeline_func_def index0_def
      Compiler_compile_def demo_env_def demo_world_def)

text \<open>
  C5 (as amended). An instance of \<open>Exception\<close> raised out of the command is caught by
  \<open>main\<close>: its \<open>str\<close> is written to standard error and \<open>main\<close> ends with
  \<open>SystemExit(1)\<close>. An exception that is not an instance of \<open>Exception\<close>
  (\<open>SystemExit\<close>, \<open>KeyboardInterrupt\<close>) leaves \<open>main\<close> as it is, with nothing written.
  So when \<open>main\<close> ends with \<open>SystemExit(1)\<close>, either it has written a line to standard
  error or the command itself raised that \<open>SystemExit(1)\<close>.
\<close>

theorem main_reports_exceptions:
  assumes "command w = (Inl e, w1)"
  shows "(is_Exception (class_of e) \<longrightarrow>
            main command w
              = (Inl (Exn (SystemExit 1) ''1''), w1\<lparr>stderr := stderr w1 @ [str_of e]\<rparr>))
       \<and> (\<not> is_Exception (class_of e) \<longrightarrow> main command w = (Inl e, w1))
       \<and> (fst (main command w) = Inl (Exn (SystemExit 1) m) \<longrightarrow>
            stderr (snd (main command w)) = stderr w1 @ [str_of e]
            \<or> e = Exn (SystemExit 1) m \<and> stderr (snd (main command w)) = stderr w1)"
  using assms by (cases "class_of e") (auto simp: main_def)

theorem main_reports_exceptions_witness:
  "fst (main (dsl_compile (demo_env []) (demo_args None None)) demo_world)
     = Inl (Exn (SystemExit 1) ''1'')
   \<and> stderr (snd (main (dsl_compile (demo_env []) (demo_args None None)) demo_world))
     = [''A function with @dsl.pipeline decorator is required in the py file.'']"
proof -
  let ?cmd = "dsl_compile (demo_env []) (demo_args None None)"
  have "fst (?cmd demo_world) = Inl (Exn ValueError required_message)"
    by (simp add: demo_eval)
  then have c: "?cmd demo_world = (Inl (Exn ValueError required_message), snd (?cmd demo_world))"
    by (simp add: prod_eq_iff)
  have s: "stderr (snd (?cmd demo_world)) = []"
    by (simp add: demo_eval)
  from main_reports_exceptions
      [of ?cmd demo_world "Exn ValueError required_message" "snd (?cmd demo_world)" "[]",
       OF c, THEN conjunct1] s
  show ?thesis by (simp add: required_message_def)
qed

text \<open>
  C5 as stated fails: the imported module raises \<open>SystemExit(1)\<close> (it calls
  \<open>sys.exit(1)\<close>); \<open>main\<close> does not catch it, and the process ends with status 1
  although \<open>main\<close> has written nothing to standard error.
\<close>

theorem main_counterexample:
  "fst (dsl_compile (demo_env [Raise (Exn (SystemExit 1) ''1'')]) (demo_args None None)
          demo_world)
     = Inl (Exn (SystemExit 1) ''1'')
   \<and> fst (main (dsl_compile (demo_env [Raise (Exn (SystemExit 1) ''1'')])
                  (demo_args None None)) demo_world)
     = Inl (Exn (SystemExit 1) ''1'')
   \<and> stderr (snd (main (dsl_compile (demo_env [Raise (Exn (SystemExit 1) ''1'')])
                  (demo_args None None)) demo_world))
     = []"
  by (simp add: main_def demo_eval)

lemma cli_no_completion:
  "\<not> truthy show_completion \<Longrightarrow> \<not> truthy install_completion \<Longrightarrow>
     cli env ctx endpoint iap_client_id namespace other_client_id other_client_secret
         output_format show_completion install_completion w
       = (if is_client_command env (invoked_subcommand ctx)
          then create_client env ctx
                 (Client endpoint iap_client_id namespace other_client_id other_client_secret)
                 namespace output_format w
          else (Inr (), ctx, w))"
  by (simp add: cli_def)

lemma install_completion_file_clients:
  "client_calls (snd (install_completion_file env shell w)) = client_calls w"
  by (simp add: install_completion_file_def Let_def split: option.splits)

text \<open>
  C8 (as amended). When neither \<open>--show-completion\<close> nor \<open>--install-completion\<close> is
  given and the invoked subcommand is one of the client commands (by its name or its
  name followed by s), the callback \<open>cli\<close> constructs a \<open>Client\<close> from the endpoint,
  iap\_client\_id, namespace, other\_client\_id and other\_client\_secret and, when the
  constructor returns and \<open>ctx.obj\<close> is a dictionary, stores it there under \<open>client\<close>.
  In every other invocation no \<open>Client\<close> is constructed and the context is unchanged.
\<close>

theorem client_created_for_client_commands:
  "(\<not> truthy show_completion \<and> \<not> truthy install_completion
      \<and> is_client_command env (invoked_subcommand ctx) \<longrightarrow>
        client_calls (snd (snd (cli env ctx endpoint iap_client_id namespace other_client_id
             other_client_secret output_format show_completion install_completion w)))
          = client_calls w
              @ [Client endpoint iap_client_id namespace other_client_id other_client_secret]
        \<and> (Client_raises env
              (Client endpoint iap_client_id namespace other_client_id other_client_secret)
              = None \<and> obj ctx = Some d \<longrightarrow>
             fst (cli env ctx endpoint iap_client_id namespace other_client_id
               other_client_secret output_format show_completion install_completion w)
               = Inr ()
             \<and> obj (fst (snd (cli env ctx endpoint iap_client_id namespace other_client_id
                  other_client_secret output_format show_completion install_completion w)))
               = Some (d(''client'' \<mapsto> ClientObj (Client endpoint iap_client_id namespace
                                              other_client_id other_client_secret),
                         ''namespace'' \<mapsto> StrObj namespace,
                         ''output'' \<mapsto> StrObj output_format))))
   \<and> (truthy show_completion \<or> truthy install_completion
        \<or> \<not> is_client_command env (invoked_subcommand ctx) \<longrightarrow>
        client_calls (snd (snd (cli env ctx endpoint iap_client_id namespace other_client_id
             other_client_secret output_format show_completion install_completion w)))
          = client_calls w
        \<and> fst (snd (cli env ctx endpoint iap_client_id namespace other_client_id
             other_client_secret output_format show_completion install_completion w))
          = ctx)"
proof -
  let ?r = "cli env ctx endpoint iap_client_id namespace other_client_id other_client_secret
              output_format show_completion install_completion w"
  let ?c = "Client endpoint iap_client_id namespace other_client_id other_client_secret"
  have made: "client_calls (snd (snd ?r)) = client_calls w @ [?c]
        \<and> (Client_raises env ?c = None \<and> obj ctx = Some d \<longrightarrow>
             fst ?r = Inr ()
             \<and> obj (fst (snd ?r))
               = Some (d(''client'' \<mapsto> ClientObj ?c, ''namespace'' \<mapsto> StrObj namespace,
                         ''output'' \<mapsto> StrObj output_format)))"
    if "\<not> truthy show_completion" and "\<not> truthy install_completion"
      and "is_client_command env (invoked_subcommand ctx)"
    using that(3)
    by (simp add: cli_no_completion [OF that(1) that(2)] create_client_def Let_def
        split: option.splits)
  have skipped: "client_calls (snd (snd ?r)) = client_calls w \<and> fst (snd ?r) = ctx"
    if "truthy show_completion \<or> truthy install_completion
        \<or> \<not> is_client_command env (invoked_subcommand ctx)"
  proof (cases "truthy show_completion")
    case True
    then show ?thesis by (simp add: cli_def)
  next
    case ns: False
    show ?thesis
    proof (cases "truthy install_completion")
      case True
      with ns show ?thesis
        using install_completion_file_clients
          [of env "case install_completion of Some s \<Rightarrow> s | None \<Rightarrow> []" w]
        by (auto simp: cli_def split: prod.splits)
    next
      case False
      with ns that show ?thesis
        by (simp add: cli_no_completion)
    qed
  qed
  from made skipped show ?thesis by blast
qed

theorem client_created_for_client_commands_witness:
  "client_calls (snd (snd (cli demo_cli_env (demo_context (Some ''experiments''))
       (Some ''http://kfp.example'') None ''kubeflow'' None None ''table'' None None
       demo_cli_world)))
     = [Client (Some ''http://kfp.example'') None ''kubeflow'' None None]
   \<and> obj (fst (snd (cli demo_cli_env (demo_context (Some ''experiments''))
       (Some ''http://kfp.example'') None ''kubeflow'' None None ''table'' None None
       demo_cli_world)))
     = Some [''client'' \<mapsto> ClientObj (Client (Some ''http://kfp.example'') None ''kubeflow''
                                         None None),
             ''namespace'' \<mapsto> StrObj ''kubeflow'',
             ''output'' \<mapsto> StrObj ''table'']"
proof -
  have s: "\<not> truthy None" by simp
  have c: "is_client_command demo_cli_env (invoked_subcommand (demo_context (Some ''experiments'')))"
    by (simp add: is_client_command_def client_commands_def demo_cli_env_def demo_context_def)
  have r: "Client_raises demo_cli_env
             (Client (Some ''http://kfp.example'') None ''kubeflow'' None None) = None
           \<and> obj (demo_context (Some ''experiments'')) = Some Map.empty"
    by (simp add: demo_cli_env_def demo_context_def)
  have w: "client_calls demo_cli_world = []"
    by (simp add: demo_cli_world_def)
  from client_created_for_client_commands
    [of None None demo_cli_env "demo_context (Some ''experiments'')" "Some ''http://kfp.example''"
       None "''kubeflow''" None None "''table''" demo_cli_world Map.empty, THEN conjunct1]
    s c r w
  show ?thesis by simp
qed

text \<open>
  C8 as stated fails: \<open>kfp\<close> is invoked without a subcommand (the group is declared with
  \<open>invoke_without_command=True\<close>); the callback returns without constructing a
  \<open>Client\<close>, and the context object is as before.
\<close>

theorem client_created_counterexample:
  "cli demo_cli_env (demo_context None) (Some ''http://kfp.example'') None ''kubeflow''
       None None ''table'' None None demo_cli_world
     = (Inr (), demo_context None, demo_cli_world)
   \<and> client_calls demo_cli_world = []
   \<and> obj (demo_context None) = Some Map.empty"
  by (simp add: cli_def is_client_command_def demo_context_def demo_cli_world_def)

end
